theory Spec2Isabelle
  imports
    Complex_Main
    "HOL-Library.Char_ord"
    "HOL-Library.List_Lexorder"
    "HOL-Library.Product_Lexorder"
begin

section \<open>Cells and tables\<close>

text \<open>
  The dashboard of \<^verbatim>\<open>app.py\<close> is one script over a pandas data frame. A cell of a
  frame is an integer, a float, a string or a missing-value marker. pandas has two markers:
  \<^verbatim>\<open>NaN\<close> in float64 and object columns (what \<^verbatim>\<open>read_csv\<close> leaves for an empty
  field) and \<^verbatim>\<open>pd.NA\<close> in the nullable \<^verbatim>\<open>Int64\<close> columns. Floats are idealised
  as reals (no rounding, no infinities) and integers are unbounded. A value that is
  present is a \<open>val\<close>; the values offered and selected in the sidebar are of this type,
  since the script builds them with \<^verbatim>\<open>dropna()\<close>.
\<close>

datatype val = IntV int | FloatV real | StrV string

datatype cell = V val | NA | NaN

datatype py_error = KeyError | TypeError | ValueError | OtherError

text \<open>
  A column has one type. \<^verbatim>\<open>read_csv\<close> gives an integer column when every field is
  an integer, a float column when a field is a float or is empty, and an object column
  when a field is not numeric. The model reads the type off the cells: a column with a
  string is an object column; without one, a column that shows a float or \<^verbatim>\<open>NaN\<close> is
  a float64 column, and a column of integers and \<^verbatim>\<open>pd.NA\<close> is an integer column.
\<close>

definition has_str :: "cell list \<Rightarrow> bool" where
  "has_str col = list_ex (\<lambda>c. case c of V (StrV s) \<Rightarrow> True | _ \<Rightarrow> False) col"

definition is_float_col :: "cell list \<Rightarrow> bool" where
  "is_float_col col =
     list_ex (\<lambda>c. case c of NaN \<Rightarrow> True | V (FloatV x) \<Rightarrow> True | _ \<Rightarrow> False) col"

text \<open>
  One row of the wide table, with the columns that \<^verbatim>\<open>df.melt\<close> names (lines 42-48).
  Any further column of the CSV is dropped by \<^verbatim>\<open>melt\<close> and is not represented.
\<close>

record wide =
  w_Year :: cell
  w_Term :: cell
  w_Applications :: cell
  w_Admitted :: cell
  w_Enrolled :: cell
  w_Retention_Rate :: cell
  w_Student_Satisfaction :: cell
  Engineering_Enrolled :: cell
  Business_Enrolled :: cell
  Arts_Enrolled :: cell
  Science_Enrolled :: cell

text \<open>
  A parsed CSV either has every column that \<^verbatim>\<open>melt\<close> names, and is then a list of
  wide rows, or lacks one of them.
\<close>

datatype table = WellFormed "wide list" | LacksColumn

text \<open>
  One row after \<^verbatim>\<open>melt\<close>. The fields \<open>RetentionRate\<close> and \<open>SatisfactionScore\<close> carry
  the names that \<^verbatim>\<open>df.rename\<close> (lines 54-57) gives to the columns
  \<^verbatim>\<open>Retention Rate (%)\<close> and \<^verbatim>\<open>Student Satisfaction (%)\<close>; renaming changes no
  cell. The long row adds the column \<open>Enrollments\<close> of line 60.
\<close>

record melted =
  Year :: cell
  Term :: cell
  Applications :: cell
  Admitted :: cell
  Enrolled :: cell
  RetentionRate :: cell
  SatisfactionScore :: cell
  Department :: cell
  EnrollmentsDept :: cell

record long = melted +
  Enrollments :: cell

section \<open>Reshaper (lines 42-60)\<close>

definition value_vars :: "(string \<times> (wide \<Rightarrow> cell)) list" where
  "value_vars =
     [(''Engineering Enrolled'', Engineering_Enrolled),
      (''Business Enrolled'', Business_Enrolled),
      (''Arts Enrolled'', Arts_Enrolled),
      (''Science Enrolled'', Science_Enrolled)]"

text \<open>
  The value column of \<^verbatim>\<open>melt\<close> is the four department columns one after the other,
  and it has one type: when one of them is a float column and none an object column, the
  value column is float64 and the integers in it are written as floats.
\<close>

definition float_values :: "wide list \<Rightarrow> bool" where
  "float_values rows =
     (let cs = concat (map (\<lambda>(name, col). map col rows) value_vars)
      in \<not> has_str cs \<and> is_float_col cs)"

definition upcast :: "bool \<Rightarrow> cell \<Rightarrow> cell" where
  "upcast fl c =
     (case c of V (IntV i) \<Rightarrow> if fl then V (FloatV (of_int i)) else V (IntV i) | _ \<Rightarrow> c)"

definition melt_row :: "bool \<Rightarrow> string \<Rightarrow> (wide \<Rightarrow> cell) \<Rightarrow> wide \<Rightarrow> melted" where
  "melt_row fl name col r =
     \<lparr>Year = w_Year r, Term = w_Term r, Applications = w_Applications r,
      Admitted = w_Admitted r, Enrolled = w_Enrolled r,
      RetentionRate = w_Retention_Rate r,
      SatisfactionScore = w_Student_Satisfaction r,
      Department = V (StrV name), EnrollmentsDept = upcast fl (col r)\<rparr>"

text \<open>
  \<^verbatim>\<open>DataFrame.melt\<close> stacks one block per value column, in the order of
  \<^verbatim>\<open>value_vars\<close>; inside a block the rows keep the order of the wide table. It raises
  \<^verbatim>\<open>KeyError\<close> when a named column is absent.
\<close>

definition melt :: "table \<Rightarrow> py_error + melted list" where
  "melt t =
     (case t of
        LacksColumn \<Rightarrow> Inl KeyError
      | WellFormed rows \<Rightarrow>
          Inr (concat (map (\<lambda>(name, col). map (melt_row (float_values rows) name col) rows)
                 value_vars)))"

text \<open>
  Python's \<^verbatim>\<open>str.replace(old, new)\<close>: every occurrence of \<open>old\<close>, left to right and
  without overlap. With an empty \<open>old\<close> Python puts \<open>new\<close> before every character
  and at the end.
\<close>

function str_replace :: "string \<Rightarrow> string \<Rightarrow> string \<Rightarrow> string" where
  "str_replace old new s =
     (if old = [] then new @ concat (map (\<lambda>c. c # new) s)
      else if s = [] then []
      else if take (length old) s = old
        then new @ str_replace old new (drop (length old) s)
      else hd s # str_replace old new (tl s))"
  by pat_completeness auto
termination
  by (relation "measure (\<lambda>(old, new, s). length s)") auto

text \<open>
  \<^verbatim>\<open>Series.str.replace(" Enrolled", "", regex=False)\<close> works on the string cells and
  leaves \<^verbatim>\<open>NaN\<close> in every other cell.
\<close>

definition strip_Enrolled :: "cell \<Rightarrow> cell" where
  "strip_Enrolled c =
     (case c of V (StrV s) \<Rightarrow> V (StrV (str_replace '' Enrolled'' '''' s)) | _ \<Rightarrow> NaN)"

definition add_Enrollments :: "melted \<Rightarrow> long" where
  "add_Enrollments m = melted.extend m (long.fields (EnrollmentsDept m))"

definition reshape :: "table \<Rightarrow> py_error + long list" where
  "reshape t =
     (case melt t of
        Inl e \<Rightarrow> Inl e
      | Inr ms \<Rightarrow>
          Inr (map (\<lambda>m. add_Enrollments (m\<lparr>Department := strip_Enrolled (Department m)\<rparr>)) ms))"

section \<open>Loader (lines 17-40)\<close>

text \<open>
  What the file system and \<^verbatim>\<open>pd.read_csv\<close> do with one path: the path does not
  exist, or \<^verbatim>\<open>Path.exists\<close> or \<^verbatim>\<open>read_csv\<close> raises (an unreadable, empty or
  malformed file), or the file parses to a table.
\<close>

datatype 't probe = Absent | Raises py_error | Parsed 't

definition DATA_PATHS :: "string list" where
  "DATA_PATHS = [''university_student_data.csv'', ''/mnt/data/university_student_data.csv'']"

text \<open>The body of the \<^verbatim>\<open>try\<close> of lines 27-31; \<open>Inr None\<close> is falling through the \<^verbatim>\<open>if\<close>.\<close>

definition try_candidate :: "(string \<Rightarrow> 't probe) \<Rightarrow> string \<Rightarrow> py_error + 't option" where
  "try_candidate fs p =
     (case fs p of Absent \<Rightarrow> Inr None | Raises e \<Rightarrow> Inl e | Parsed df \<Rightarrow> Inr (Some df))"

text \<open>The loop of lines 26-34: \<^verbatim>\<open>except Exception: continue\<close>, and \<^verbatim>\<open>None\<close> at the end.\<close>

fun load_paths :: "(string \<Rightarrow> 't probe) \<Rightarrow> string list \<Rightarrow> 't option" where
  "load_paths fs [] = None"
| "load_paths fs (p # ps) =
     (case try_candidate fs p of
        Inr (Some df) \<Rightarrow> Some df
      | Inr None \<Rightarrow> load_paths fs ps
      | Inl e \<Rightarrow> load_paths fs ps)"

text \<open>The function under the decorator, lines 24-34.\<close>

definition load_data_body :: "(string \<Rightarrow> 't probe) \<Rightarrow> 't option" where
  "load_data_body fs = load_paths fs DATA_PATHS"

text \<open>
  \<^verbatim>\<open>@st.cache_data(ttl=600)\<close>, line 23. The function has no argument, so the cache holds
  at most one entry: the last result of the body, \<^verbatim>\<open>None\<close> included, with the time in
  seconds at which it was stored. The cache outlives a run of the script. During the
  600 seconds after the storing a call returns the stored result and does not read the
  files; any other call runs the body and stores its result.
\<close>

type_synonym 't cache = "('t option \<times> nat) option"

definition ttl :: nat where
  "ttl = 600"

definition load_data ::
  "'t cache \<Rightarrow> nat \<Rightarrow> (string \<Rightarrow> 't probe) \<Rightarrow> 't option \<times> 't cache" where
  "load_data c now fs =
     (case c of
        Some (df, stored_at) \<Rightarrow>
          if now < stored_at + ttl then (df, c)
          else (load_data_body fs, Some (load_data_body fs, now))
      | None \<Rightarrow> (load_data_body fs, Some (load_data_body fs, now)))"

section \<open>Validator and coercer (lines 62-79)\<close>

definition long_columns :: "string list" where
  "long_columns =
     [''Year'', ''Term'', ''Applications'', ''Admitted'', ''Enrolled'', ''RetentionRate'',
      ''SatisfactionScore'', ''Department'', ''EnrollmentsDept'', ''Enrollments'']"

definition expected_columns :: "string list" where
  "expected_columns =
     [''Year'', ''Department'', ''Term'', ''Applications'', ''Enrollments'',
      ''RetentionRate'', ''SatisfactionScore'']"

text \<open>Lines 65-67: the expected names that the frame lacks, sorted.\<close>

definition missing :: "string list" where
  "missing = sort (filter (\<lambda>c. c \<notin> set long_columns) expected_columns)"

text \<open>
  What pandas reads in one string: an integer literal, a float literal, or nothing
  numeric. The grammar of the literals belongs to pandas and is a parameter \<open>parse\<close> of
  the model.
\<close>

datatype parsed = PInt int | PFloat real | PFail

definition to_numeric_cell :: "(string \<Rightarrow> parsed) \<Rightarrow> cell \<Rightarrow> parsed" where
  "to_numeric_cell parse c =
     (case c of
        V (IntV i) \<Rightarrow> PInt i
      | V (FloatV x) \<Rightarrow> PFloat x
      | V (StrV s) \<Rightarrow> parse s
      | NA \<Rightarrow> PFail
      | NaN \<Rightarrow> PFail)"

text \<open>
  A numeric column is an \<^verbatim>\<open>int64\<close> array, or a \<^verbatim>\<open>float64\<close> array where \<open>None\<close> is
  \<^verbatim>\<open>NaN\<close>.
\<close>

datatype numcol = Int64_col "int list" | Float64_col "real option list"

definition the_int :: "parsed \<Rightarrow> int option" where
  "the_int p = (case p of PInt i \<Rightarrow> Some i | _ \<Rightarrow> None)"

definition the_float :: "parsed \<Rightarrow> real option" where
  "the_float p = (case p of PInt i \<Rightarrow> Some (of_int i) | PFloat x \<Rightarrow> Some x | PFail \<Rightarrow> None)"

text \<open>
  \<^verbatim>\<open>pd.to_numeric(col, errors="coerce")\<close>: a cell that does not parse becomes
  \<^verbatim>\<open>NaN\<close>; the result is \<^verbatim>\<open>int64\<close> when every cell is an integer and
  \<^verbatim>\<open>float64\<close> otherwise. With this setting it raises on no cell that a CSV can hold
  (a number, a string or an empty field), so it is a total function here.
\<close>

definition to_numeric :: "(string \<Rightarrow> parsed) \<Rightarrow> cell list \<Rightarrow> numcol" where
  "to_numeric parse col =
     (let ps = map (to_numeric_cell parse) col
      in if list_all (\<lambda>p. the_int p \<noteq> None) ps
         then Int64_col (List.map_filter the_int ps)
         else Float64_col (map the_float ps))"

definition integral :: "real \<Rightarrow> bool" where
  "integral x = (of_int \<lfloor>x\<rfloor> = x)"

text \<open>
  \<^verbatim>\<open>.astype("Int64")\<close>: \<^verbatim>\<open>NaN\<close> becomes \<^verbatim>\<open>pd.NA\<close> (here \<open>None\<close>); a float with a
  fractional part makes pandas raise \<^verbatim>\<open>TypeError\<close> (cannot safely cast).
\<close>

definition astype_Int64 :: "numcol \<Rightarrow> py_error + int option list" where
  "astype_Int64 c =
     (case c of
        Int64_col xs \<Rightarrow> Inr (map Some xs)
      | Float64_col xs \<Rightarrow>
          if list_all (\<lambda>x. case x of None \<Rightarrow> True | Some v \<Rightarrow> integral v) xs
          then Inr (map (map_option floor) xs)
          else Inl TypeError)"

definition cells_of_numcol :: "numcol \<Rightarrow> cell list" where
  "cells_of_numcol c =
     (case c of
        Int64_col xs \<Rightarrow> map (\<lambda>i. V (IntV i)) xs
      | Float64_col xs \<Rightarrow> map (\<lambda>x. case x of None \<Rightarrow> NaN | Some v \<Rightarrow> V (FloatV v)) xs)"

definition cells_of_Int64 :: "int option list \<Rightarrow> cell list" where
  "cells_of_Int64 xs = map (\<lambda>x. case x of None \<Rightarrow> NA | Some i \<Rightarrow> V (IntV i)) xs"

text \<open>Lines 72-75: the \<^verbatim>\<open>try\<close> with its \<^verbatim>\<open>except Exception\<close>.\<close>

definition coerce_int :: "(string \<Rightarrow> parsed) \<Rightarrow> cell list \<Rightarrow> cell list" where
  "coerce_int parse col =
     (case astype_Int64 (to_numeric parse col) of
        Inr xs \<Rightarrow> cells_of_Int64 xs
      | Inl e \<Rightarrow> cells_of_numcol (to_numeric parse col))"

text \<open>Line 79.\<close>

definition coerce_float :: "(string \<Rightarrow> parsed) \<Rightarrow> cell list \<Rightarrow> cell list" where
  "coerce_float parse col = cells_of_numcol (to_numeric parse col)"

text \<open>
  Lines 70-79. Every column named there is a column of the long frame, so each
  \<^verbatim>\<open>if col in df.columns\<close> holds; assigning a column writes one cell per row.
\<close>

definition coerce :: "(string \<Rightarrow> parsed) \<Rightarrow> long list \<Rightarrow> long list" where
  "coerce parse df0 =
     (let df1 = map2 (\<lambda>v r. r\<lparr>Year := v\<rparr>) (coerce_int parse (map Year df0)) df0;
          df2 = map2 (\<lambda>v r. r\<lparr>Applications := v\<rparr>) (coerce_int parse (map Applications df1)) df1;
          df3 = map2 (\<lambda>v r. r\<lparr>Enrollments := v\<rparr>) (coerce_int parse (map Enrollments df2)) df2;
          df4 = map2 (\<lambda>v r. r\<lparr>RetentionRate := v\<rparr>)
                  (coerce_float parse (map RetentionRate df3)) df3;
          df5 = map2 (\<lambda>v r. r\<lparr>SatisfactionScore := v\<rparr>)
                  (coerce_float parse (map SatisfactionScore df4)) df4
      in df5)"

section \<open>Sidebar and filter engine (lines 86-107)\<close>

text \<open>\<^verbatim>\<open>notna\<close>: the cell holds a value.\<close>

definition notna :: "cell \<Rightarrow> bool" where
  "notna c = (case c of V v \<Rightarrow> True | _ \<Rightarrow> False)"

definition dropna :: "cell list \<Rightarrow> val list" where
  "dropna col = List.map_filter (\<lambda>c. case c of V v \<Rightarrow> Some v | _ \<Rightarrow> None) col"

text \<open>\<^verbatim>\<open>Series.unique()\<close> keeps the first occurrence of each value.\<close>

definition unique :: "'a list \<Rightarrow> 'a list" where
  "unique xs = rev (remdups (rev xs))"

definition is_str :: "val \<Rightarrow> bool" where
  "is_str v = (case v of StrV s \<Rightarrow> True | _ \<Rightarrow> False)"

text \<open>
  Python orders numbers by value and strings by code point, and refuses to compare a
  number with a string. The key puts numbers before strings, as the sort inside
  \<^verbatim>\<open>groupby\<close> does for mixed keys.
\<close>

definition val_key :: "val \<Rightarrow> bool \<times> real \<times> string" where
  "val_key v =
     (case v of
        IntV i \<Rightarrow> (False, of_int i, [])
      | FloatV x \<Rightarrow> (False, x, [])
      | StrV s \<Rightarrow> (True, 0, s))"

text \<open>
  Python's \<^verbatim>\<open>sorted\<close>, a stable sort: \<^verbatim>\<open>TypeError\<close> when the list holds both a
  number and a string.
\<close>

definition py_sorted :: "val list \<Rightarrow> py_error + val list" where
  "py_sorted vs =
     (if list_ex is_str vs \<and> list_ex (\<lambda>v. \<not> is_str v) vs then Inl TypeError
      else Inr (sort_key val_key vs))"

text \<open>Lines 88-90: \<^verbatim>\<open>sorted(df[col].dropna().unique().tolist())\<close>.\<close>

definition options :: "cell list \<Rightarrow> py_error + val list" where
  "options col = py_sorted (unique (dropna col))"

text \<open>
  \<^verbatim>\<open>st.sidebar.multiselect(label, opts, default=opts)\<close> returns the default until the
  user picks; what the user picks is a list of offered values.
\<close>

definition multiselect :: "val list \<Rightarrow> val list option \<Rightarrow> val list" where
  "multiselect opts choice =
     (case choice of None \<Rightarrow> opts | Some picked \<Rightarrow> filter (\<lambda>v. v \<in> set opts) picked)"

text \<open>
  \<^verbatim>\<open>Series.isin(values)\<close> for a list of present values: a missing cell is in no such
  list.
\<close>

definition isin :: "cell \<Rightarrow> val list \<Rightarrow> bool" where
  "isin c vs = (case c of V v \<Rightarrow> v \<in> set vs | _ \<Rightarrow> False)"

text \<open>Lines 96-102. An empty list is falsy in Python.\<close>

definition filter_engine :: "val list \<Rightarrow> val list \<Rightarrow> val list \<Rightarrow> long list \<Rightarrow> long list" where
  "filter_engine year_sel dept_sel term_sel df =
     (let df_f = df;
          df_f = (if year_sel \<noteq> [] then filter (\<lambda>r. isin (Year r) year_sel) df_f else df_f);
          df_f = (if dept_sel \<noteq> [] then filter (\<lambda>r. isin (Department r) dept_sel) df_f else df_f);
          df_f = (if term_sel \<noteq> [] then filter (\<lambda>r. isin (Term r) term_sel) df_f else df_f)
      in df_f)"

section \<open>Aggregator (lines 109-154)\<close>

text \<open>
  The aggregations read columns that \<open>coerce\<close> has made numeric. A column that still
  held a string would be an object column (\<open>has_str\<close>), which the numeric reductions of
  pandas refuse; the model reports \<^verbatim>\<open>TypeError\<close> for it.
\<close>

text \<open>The number in a cell, as a float; \<open>None\<close> for a missing cell and for a string.\<close>

definition number_of :: "cell \<Rightarrow> real option" where
  "number_of c =
     (case c of V (IntV i) \<Rightarrow> Some (of_int i) | V (FloatV x) \<Rightarrow> Some x | _ \<Rightarrow> None)"

definition numbers :: "cell list \<Rightarrow> real list" where
  "numbers col = List.map_filter number_of col"

definition integers :: "cell list \<Rightarrow> int list" where
  "integers col = List.map_filter (\<lambda>c. case c of V (IntV i) \<Rightarrow> Some i | _ \<Rightarrow> None) col"

text \<open>The mean of the cells that are present; \<open>None\<close> is \<^verbatim>\<open>NaN\<close>, the mean of no cell.\<close>

definition mean_skipna :: "cell list \<Rightarrow> real option" where
  "mean_skipna col =
     (let xs = numbers col
      in if xs = [] then None else Some (sum_list xs / of_nat (length xs)))"

text \<open>\<^verbatim>\<open>Series.mean()\<close>.\<close>

definition mean :: "cell list \<Rightarrow> py_error + real option" where
  "mean col = (if has_str col then Inl TypeError else Inr (mean_skipna col))"

datatype scalar = SInt int | SFloat real | SNA | SNaN

text \<open>
  \<^verbatim>\<open>Series.sum(min_count=1)\<close>: the sum of the cells that are present, and the missing
  marker of the column's type when no cell is present.
\<close>

definition sum_min_count_1 :: "cell list \<Rightarrow> py_error + scalar" where
  "sum_min_count_1 col =
     (if has_str col then Inl TypeError
      else if is_float_col col
        then Inr (if numbers col = [] then SNaN else SFloat (sum_list (numbers col)))
      else Inr (if integers col = [] then SNA else SInt (sum_list (integers col))))"

text \<open>
  \<^verbatim>\<open>x or 0\<close> takes the truth value of \<open>x\<close>: \<^verbatim>\<open>bool(pd.NA)\<close> raises \<^verbatim>\<open>TypeError\<close>,
  \<^verbatim>\<open>NaN\<close> is true, and zero is false.
\<close>

definition or_0 :: "scalar \<Rightarrow> py_error + scalar" where
  "or_0 x =
     (case x of
        SNA \<Rightarrow> Inl TypeError
      | SNaN \<Rightarrow> Inr SNaN
      | SInt i \<Rightarrow> Inr (if i = 0 then SInt 0 else SInt i)
      | SFloat v \<Rightarrow> Inr (if v = 0 then SInt 0 else SFloat v))"

text \<open>\<^verbatim>\<open>int(x)\<close> truncates a float towards zero and raises \<^verbatim>\<open>ValueError\<close> on \<^verbatim>\<open>NaN\<close>.\<close>

definition py_int :: "scalar \<Rightarrow> py_error + int" where
  "py_int x =
     (case x of
        SInt i \<Rightarrow> Inr i
      | SFloat v \<Rightarrow> Inr (if 0 \<le> v then \<lfloor>v\<rfloor> else \<lceil>v\<rceil>)
      | SNaN \<Rightarrow> Inl ValueError
      | SNA \<Rightarrow> Inl TypeError)"

text \<open>Line 115.\<close>

definition total_enr :: "long list \<Rightarrow> py_error + int" where
  "total_enr df_f =
     (case sum_min_count_1 (map Enrollments df_f) of
        Inl e \<Rightarrow> Inl e
      | Inr s \<Rightarrow> (case or_0 s of Inl e \<Rightarrow> Inl e | Inr t \<Rightarrow> py_int t))"

datatype kpi = RetentionKPI | SatisfactionKPI | EnrollmentKPI

text \<open>What a metric shows; the two decimals of the format \<^verbatim>\<open>:.2f\<close> are not modelled.\<close>

datatype shown = NotAvailable | Percent real | OutOfFive real | Count int

datatype chart =
  LineChart "(val \<times> real option) list"
| BarChart "(val \<times> real option) list"
| PieChart "(val \<times> val) list"

datatype panel =
  QuickView | Indicators | RetentionTrend | SatisfactionByYear | EnrollmentByTerm | FilteredData

datatype event =
  PageTitle
| Intro
| LoadError
| ColumnsWarning "string list"
| Subheader panel
| Dataframe "long list"
| ShapeLine nat nat
| SidebarHeader
| NoRowsWarning
| Metric kpi shown
| ErrorBox panel py_error
| Pyplot chart

text \<open>The body of the \<^verbatim>\<open>try\<close> of lines 113-118: the three metrics come after the three computations.\<close>

definition kpi_body :: "long list \<Rightarrow> py_error + event list" where
  "kpi_body df_f =
     (case mean (map RetentionRate df_f) of
        Inl e \<Rightarrow> Inl e
      | Inr avg_ret \<Rightarrow>
     (case mean (map SatisfactionScore df_f) of
        Inl e \<Rightarrow> Inl e
      | Inr avg_sat \<Rightarrow>
     (case total_enr df_f of
        Inl e \<Rightarrow> Inl e
      | Inr total_enr_v \<Rightarrow>
          Inr [Metric RetentionKPI (case avg_ret of None \<Rightarrow> NotAvailable | Some x \<Rightarrow> Percent x),
               Metric SatisfactionKPI (case avg_sat of None \<Rightarrow> NotAvailable | Some x \<Rightarrow> OutOfFive x),
               Metric EnrollmentKPI (Count total_enr_v)])))"

text \<open>Lines 112-120.\<close>

definition kpi_section :: "long list \<Rightarrow> event list" where
  "kpi_section df_f =
     (case kpi_body df_f of Inl e \<Rightarrow> [ErrorBox Indicators e] | Inr metrics \<Rightarrow> metrics)"

text \<open>
  \<^verbatim>\<open>groupby(key)\<close> with its defaults: one group per present key, the keys sorted; the
  rows whose key is missing belong to no group.
\<close>

definition group_keys :: "cell list \<Rightarrow> val list" where
  "group_keys col = sort_key val_key (unique (dropna col))"

definition groupby_mean ::
  "(long \<Rightarrow> cell) \<Rightarrow> (long \<Rightarrow> cell) \<Rightarrow> long list \<Rightarrow> py_error + (val \<times> real option) list" where
  "groupby_mean key col df =
     (if has_str (map col df) then Inl TypeError
      else Inr (map (\<lambda>k. (k, mean_skipna (map col (filter (\<lambda>r. key r = V k) df))))
                  (group_keys (map key df))))"

text \<open>The sum of a group has no \<^verbatim>\<open>min_count\<close>: a group with no present cell sums to zero.\<close>

definition groupby_sum ::
  "(long \<Rightarrow> cell) \<Rightarrow> (long \<Rightarrow> cell) \<Rightarrow> long list \<Rightarrow> py_error + (val \<times> val) list" where
  "groupby_sum key col df =
     (if has_str (map col df) then Inl TypeError
      else Inr (map (\<lambda>k. (k, let g = map col (filter (\<lambda>r. key r = V k) df)
                              in if is_float_col (map col df) then FloatV (sum_list (numbers g))
                                 else IntV (sum_list (integers g))))
                  (group_keys (map key df))))"

text \<open>
  One chart section (lines 124-132, 136-143, 147-154): the aggregation, then the drawing
  calls of matplotlib and \<^verbatim>\<open>st.pyplot\<close>, all inside one \<^verbatim>\<open>try\<close>. The drawing
  belongs to the libraries: \<open>pyplot c\<close> is the exception it raises for the chart \<open>c\<close>,
  if any.
\<close>

definition chart_section ::
  "(chart \<Rightarrow> py_error option) \<Rightarrow> panel \<Rightarrow> py_error + chart \<Rightarrow> event list" where
  "chart_section pyplot sec data =
     (case data of
        Inl e \<Rightarrow> [ErrorBox sec e]
      | Inr c \<Rightarrow> (case pyplot c of Some e \<Rightarrow> [ErrorBox sec e] | None \<Rightarrow> [Pyplot c]))"

text \<open>Lines 109-158, reached with a filtered frame that has rows.\<close>

definition sections :: "(chart \<Rightarrow> py_error option) \<Rightarrow> long list \<Rightarrow> event list" where
  "sections pyplot df_f =
     [Subheader Indicators] @ kpi_section df_f
     @ [Subheader RetentionTrend]
     @ chart_section pyplot RetentionTrend
         (map_sum id LineChart (groupby_mean Year RetentionRate df_f))
     @ [Subheader SatisfactionByYear]
     @ chart_section pyplot SatisfactionByYear
         (map_sum id BarChart (groupby_mean Year SatisfactionScore df_f))
     @ [Subheader EnrollmentByTerm]
     @ chart_section pyplot EnrollmentByTerm
         (map_sum id PieChart (groupby_sum Term Enrollments df_f))
     @ [Subheader FilteredData, Dataframe df_f]"

section \<open>The script\<close>

text \<open>
  What the script meets when it runs: the files, the cache that earlier runs have left
  and the time of the run, the numeric literals of pandas, the plotting libraries, and
  what the user has picked in the three sidebar widgets (\<open>None\<close>: nothing yet).
\<close>

record env =
  files :: "string \<Rightarrow> table probe"
  cache :: "table cache"
  clock :: nat
  literal :: "string \<Rightarrow> parsed"
  pyplot :: "chart \<Rightarrow> py_error option"
  year_pick :: "val list option"
  dept_pick :: "val list option"
  term_pick :: "val list option"

datatype outcome = Completed | Stopped | Uncaught py_error

text \<open>Lines 86-107 and the sections after them, from the coerced frame on.\<close>

definition filtered_run :: "env \<Rightarrow> long list \<Rightarrow> event list \<times> outcome" where
  "filtered_run e df =
     (case options (map Year df) of
        Inl err \<Rightarrow> ([SidebarHeader], Uncaught err)
      | Inr years \<Rightarrow>
     (case options (map Department df) of
        Inl err \<Rightarrow> ([SidebarHeader], Uncaught err)
      | Inr depts \<Rightarrow>
     (case options (map Term df) of
        Inl err \<Rightarrow> ([SidebarHeader], Uncaught err)
      | Inr terms \<Rightarrow>
          (let year_sel = multiselect years (year_pick e);
               dept_sel = multiselect depts (dept_pick e);
               term_sel = multiselect terms (term_pick e);
               df_f = filter_engine year_sel dept_sel term_sel df
           in if df_f = [] then ([SidebarHeader, NoRowsWarning], Stopped)
              else (SidebarHeader # sections (pyplot e) df_f, Completed)))))"

text \<open>The whole script, lines 12-158. \<^verbatim>\<open>st.stop()\<close> ends the run.\<close>

definition run :: "env \<Rightarrow> event list \<times> outcome" where
  "run e =
     (case fst (load_data (cache e) (clock e) (files e)) of
        None \<Rightarrow> ([PageTitle, Intro, LoadError], Stopped)
      | Some t \<Rightarrow>
     (case reshape t of
        Inl err \<Rightarrow> ([PageTitle, Intro], Uncaught err)
      | Inr df0 \<Rightarrow>
          (let warn = (if missing \<noteq> [] then [ColumnsWarning missing] else []);
               df = coerce (literal e) df0;
               quick = [Subheader QuickView, Dataframe (take 5 df),
                        ShapeLine (length df) (length long_columns)];
               (rest, out) = filtered_run e df
           in ([PageTitle, Intro] @ warn @ quick @ rest, out))))"

text \<open>The cache that a run leaves to the next one.\<close>

definition cache_after :: "env \<Rightarrow> table cache" where
  "cache_after e = snd (load_data (cache e) (clock e) (files e))"

section \<open>Sample frames\<close>

text \<open>
  The wide row of the reshaping scenario: year 2020, term Fall, department counts 50, 30,
  10 and 10, retention 85.0, satisfaction 4.2.
\<close>

definition scenario_row :: wide where
  "scenario_row =
     \<lparr>w_Year = V (IntV 2020), w_Term = V (StrV ''Fall''), w_Applications = V (IntV 400),
      w_Admitted = V (IntV 200), w_Enrolled = V (IntV 100),
      w_Retention_Rate = V (FloatV 85), w_Student_Satisfaction = V (FloatV 4.2),
      Engineering_Enrolled = V (IntV 50), Business_Enrolled = V (IntV 30),
      Arts_Enrolled = V (IntV 10), Science_Enrolled = V (IntV 10)\<rparr>"

text \<open>
  Two long rows, of 2020 with retention 80 and of 2021 with retention 90, and a row of
  2020 whose Term is missing.
\<close>

definition row_2020 :: long where
  "row_2020 =
     \<lparr>Year = V (IntV 2020), Term = V (StrV ''Fall''), Applications = V (IntV 400),
      Admitted = V (IntV 200), Enrolled = V (IntV 100), RetentionRate = V (FloatV 80),
      SatisfactionScore = V (FloatV 4.2), Department = V (StrV ''Engineering''),
      EnrollmentsDept = V (IntV 50), Enrollments = V (IntV 50)\<rparr>"

definition row_2021 :: long where
  "row_2021 =
     \<lparr>Year = V (IntV 2021), Term = V (StrV ''Spring''), Applications = V (IntV 500),
      Admitted = V (IntV 250), Enrolled = V (IntV 120), RetentionRate = V (FloatV 90),
      SatisfactionScore = V (FloatV 4.5), Department = V (StrV ''Engineering''),
      EnrollmentsDept = V (IntV 60), Enrollments = V (IntV 60)\<rparr>"

definition row_no_term :: long where
  "row_no_term = row_2020\<lparr>Term := NaN\<rparr>"

text \<open>
  A CSV of two rows: the scenario row and a row of Spring 2021 whose Arts count is an
  empty field, so that the Arts column is a float column. In the file system the first
  candidate path holds a malformed file and the second this CSV.
\<close>

definition fall_row :: wide where
  "fall_row = scenario_row\<lparr>Arts_Enrolled := V (FloatV 10)\<rparr>"

definition spring_row :: wide where
  "spring_row =
     \<lparr>w_Year = V (IntV 2021), w_Term = V (StrV ''Spring''), w_Applications = V (IntV 500),
      w_Admitted = V (IntV 250), w_Enrolled = V (IntV 120),
      w_Retention_Rate = V (FloatV 90), w_Student_Satisfaction = V (FloatV 4.5),
      Engineering_Enrolled = V (IntV 60), Business_Enrolled = V (IntV 40),
      Arts_Enrolled = NaN, Science_Enrolled = V (IntV 20)\<rparr>"

definition sample_files :: "string \<Rightarrow> table probe" where
  "sample_files p =
     (if p = ''university_student_data.csv'' then Raises OtherError
      else if p = ''/mnt/data/university_student_data.csv''
        then Parsed (WellFormed [fall_row, spring_row])
      else Absent)"

text \<open>A first run, at time 0 with an empty cache: the user has picked nothing; every chart draws.\<close>

definition sample_env :: env where
  "sample_env =
     \<lparr>files = sample_files, cache = None, clock = 0, literal = (\<lambda>s. PFail),
      pyplot = (\<lambda>c. None), year_pick = None, dept_pick = None, term_pick = None\<rparr>"

text \<open>
  A run at time 100 with the sample files, after a run at time 0 that found no file and
  left the result \<^verbatim>\<open>None\<close> in the cache.
\<close>

definition stale_env :: env where
  "stale_env = sample_env\<lparr>cache := Some (None, 0), clock := 100\<rparr>"

text \<open>The user has picked the year 2020 and the term Spring: no row has both.\<close>

definition picky_env :: env where
  "picky_env = sample_env\<lparr>year_pick := Some [IntV 2020], term_pick := Some [StrV ''Spring'']\<rparr>"

text \<open>The long frame of the two wide rows, after coercion.\<close>

definition sample_frame :: "long list" where
  "sample_frame =
     map (\<lambda>(y, t, a, ad, en, r, s, d, e).
            \<lparr>Year = V (IntV y), Term = V (StrV t), Applications = V (IntV a),
             Admitted = V (IntV ad), Enrolled = V (IntV en), RetentionRate = V (FloatV r),
             SatisfactionScore = V (FloatV s), Department = V (StrV d),
             EnrollmentsDept = (case e of None \<Rightarrow> NaN | Some i \<Rightarrow> V (FloatV (of_int i))),
             Enrollments = (case e of None \<Rightarrow> NA | Some i \<Rightarrow> V (IntV i))\<rparr>)
       [(2020, ''Fall'', 400, 200, 100, 85, 4.2, ''Engineering'', Some 50),
        (2021, ''Spring'', 500, 250, 120, 90, 4.5, ''Engineering'', Some 60),
        (2020, ''Fall'', 400, 200, 100, 85, 4.2, ''Business'', Some 30),
        (2021, ''Spring'', 500, 250, 120, 90, 4.5, ''Business'', Some 40),
        (2020, ''Fall'', 400, 200, 100, 85, 4.2, ''Arts'', Some 10),
        (2021, ''Spring'', 500, 250, 120, 90, 4.5, ''Arts'', None),
        (2020, ''Fall'', 400, 200, 100, 85, 4.2, ''Science'', Some 10),
        (2021, ''Spring'', 500, 250, 120, 90, 4.5, ''Science'', Some 20)]"

text \<open>The row of 2020 with a non-numeric string in Applications.\<close>

definition row_bad_applications :: long where
  "row_bad_applications = row_2020\<lparr>Applications := V (StrV ''n/a'')\<rparr>"

text \<open>
  The Arts row of Spring 2021 in the sample frame: its Enrollments cell is missing. It
  is the whole filtered frame when the user picks the year 2021 and the department Arts.
\<close>

definition arts_2021 :: long where
  "arts_2021 =
     \<lparr>Year = V (IntV 2021), Term = V (StrV ''Spring''), Applications = V (IntV 500),
      Admitted = V (IntV 250), Enrolled = V (IntV 120), RetentionRate = V (FloatV 90),
      SatisfactionScore = V (FloatV 4.5), Department = V (StrV ''Arts''),
      EnrollmentsDept = NaN, Enrollments = NA\<rparr>"

definition arts_env :: env where
  "arts_env = sample_env\<lparr>year_pick := Some [IntV 2021], dept_pick := Some [StrV ''Arts'']\<rparr>"

text \<open>The sample with a plotting library that fails on every line chart.\<close>

definition no_line_env :: env where
  "no_line_env =
     sample_env\<lparr>pyplot := (\<lambda>c. case c of LineChart s \<Rightarrow> Some OtherError | _ \<Rightarrow> None)\<rparr>"

text \<open>
  Two more rows of 2020: one with retention 90 and satisfaction 4.4, one with both cells
  missing.
\<close>

definition row_2020_b :: long where
  "row_2020_b =
     row_2020\<lparr>Term := V (StrV ''Spring''), RetentionRate := V (FloatV 90),
              SatisfactionScore := V (FloatV 4.4)\<rparr>"

definition row_2020_c :: long where
  "row_2020_c = row_2020\<lparr>RetentionRate := NaN, SatisfactionScore := NaN\<rparr>"

section \<open>Filter engine: properties\<close>

lemma isin_iff: "isin c vs \<longleftrightarrow> c \<in> V ` set vs"
  by (cases c) (auto simp: isin_def)

lemma filter_engine_filter:
  "filter_engine year_sel dept_sel term_sel df =
     filter (\<lambda>r. (year_sel = [] \<or> isin (Year r) year_sel)
                \<and> (dept_sel = [] \<or> isin (Department r) dept_sel)
                \<and> (term_sel = [] \<or> isin (Term r) term_sel)) df"
  by (simp add: filter_engine_def Let_def conj_commute)

text \<open>
  Claim C1. For all selections of years, departments and terms, a row is in the output of
  the filter engine if and only if it is a row of the frame, its Year is one of the
  selected years, its Department one of the selected departments and its Term one of the
  selected terms, where an empty selection restricts nothing.
\<close>

theorem filter_engine_membership:
  "r \<in> set (filter_engine year_sel dept_sel term_sel df) \<longleftrightarrow>
     r \<in> set df
     \<and> (year_sel = [] \<or> Year r \<in> V ` set year_sel)
     \<and> (dept_sel = [] \<or> Department r \<in> V ` set dept_sel)
     \<and> (term_sel = [] \<or> Term r \<in> V ` set term_sel)"
  by (simp add: filter_engine_filter isin_iff)

section \<open>Reshaper: properties\<close>

lemma strip_names:
  "strip_Enrolled (V (StrV ''Engineering Enrolled'')) = V (StrV ''Engineering'')"
  "strip_Enrolled (V (StrV ''Business Enrolled'')) = V (StrV ''Business'')"
  "strip_Enrolled (V (StrV ''Arts Enrolled'')) = V (StrV ''Arts'')"
  "strip_Enrolled (V (StrV ''Science Enrolled'')) = V (StrV ''Science'')"
  by (simp_all add: strip_Enrolled_def)

lemma long_of_melt_row:
  "add_Enrollments
     ((melt_row fl name col r)
        \<lparr>Department := strip_Enrolled (Department (melt_row fl name col r))\<rparr>) =
     \<lparr>Year = w_Year r, Term = w_Term r, Applications = w_Applications r,
      Admitted = w_Admitted r, Enrolled = w_Enrolled r,
      RetentionRate = w_Retention_Rate r, SatisfactionScore = w_Student_Satisfaction r,
      Department = strip_Enrolled (V (StrV name)), EnrollmentsDept = upcast fl (col r),
      Enrollments = upcast fl (col r)\<rparr>"
  by (simp add: add_Enrollments_def melt_row_def melted.defs long.defs)

lemma reshape_blocks:
  "reshape (WellFormed rows) =
     Inr (concat (map (\<lambda>(name, col). map (\<lambda>r.
       \<lparr>Year = w_Year r, Term = w_Term r, Applications = w_Applications r,
        Admitted = w_Admitted r, Enrolled = w_Enrolled r,
        RetentionRate = w_Retention_Rate r, SatisfactionScore = w_Student_Satisfaction r,
        Department = V (StrV name), EnrollmentsDept = upcast (float_values rows) (col r),
        Enrollments = upcast (float_values rows) (col r)\<rparr>) rows)
       [(''Engineering'', Engineering_Enrolled), (''Business'', Business_Enrolled),
        (''Arts'', Arts_Enrolled), (''Science'', Science_Enrolled)]))"
  by (simp add: reshape_def melt_def value_vars_def long_of_melt_row strip_names o_def)

lemma less_4_cases: "k < (4::nat) \<Longrightarrow> k = 0 \<or> k = 1 \<or> k = 2 \<or> k = 3"
  by arith

lemma number_of_upcast: "number_of (upcast fl c) = number_of c"
  by (simp add: upcast_def number_of_def split: cell.splits val.splits)

lemma notna_upcast: "notna (upcast fl c) = notna c"
  by (simp add: upcast_def notna_def split: cell.splits val.splits)

lemma numbers_upcast: "numbers (map (upcast fl) cs) = numbers cs"
  by (induction cs) (auto simp: numbers_def number_of_upcast split: option.splits)

text \<open>
  Claim C2. A well-formed wide table of \<open>R\<close> rows reshapes, without an error, to
  exactly \<open>4R\<close> long rows. The wide row \<open>i\<close> gives the four long rows at the positions
  \<open>i\<close>, \<open>R + i\<close>, \<open>2R + i\<close> and \<open>3R + i\<close> (every position below \<open>4R\<close> is one of these
  for exactly one row): their departments are Engineering, Business, Arts and Science, the
  suffix \<^verbatim>\<open> Enrolled\<close> stripped, each carries the scalar fields of the wide row, and
  its Enrollments (and EnrollmentsDept) is the count of its department. The count is
  written in the type of the value column, which changes neither its number nor whether
  it is present; in a table of integer counts it is the very cell.
\<close>

theorem reshape_four_per_row:
  "case reshape (WellFormed rows) of
     Inl e \<Rightarrow> False
   | Inr out \<Rightarrow>
       length out = 4 * length rows
       \<and> (\<forall>i<length rows. \<forall>k<4.
            out ! (k * length rows + i) =
              \<lparr>Year = w_Year (rows ! i), Term = w_Term (rows ! i),
               Applications = w_Applications (rows ! i),
               Admitted = w_Admitted (rows ! i), Enrolled = w_Enrolled (rows ! i),
               RetentionRate = w_Retention_Rate (rows ! i),
               SatisfactionScore = w_Student_Satisfaction (rows ! i),
               Department = V (StrV ([''Engineering'', ''Business'', ''Arts'', ''Science''] ! k)),
               EnrollmentsDept = upcast (float_values rows)
                 (([Engineering_Enrolled, Business_Enrolled, Arts_Enrolled, Science_Enrolled] ! k)
                   (rows ! i)),
               Enrollments = upcast (float_values rows)
                 (([Engineering_Enrolled, Business_Enrolled, Arts_Enrolled, Science_Enrolled] ! k)
                   (rows ! i))\<rparr>)
       \<and> number_of (upcast (float_values rows) c) = number_of c
       \<and> notna (upcast (float_values rows) c) = notna c
       \<and> (\<not> float_values rows \<longrightarrow> upcast (float_values rows) c = c)"
proof -
  have "(\<forall>i<length rows. \<forall>k<4. P i k) \<longleftrightarrow>
      (\<forall>i<length rows. P i 0 \<and> P i 1 \<and> P i 2 \<and> P i 3)" for P :: "nat \<Rightarrow> nat \<Rightarrow> bool"
    using less_4_cases by (auto simp: numeral_eq_Suc)
  moreover have "\<not> float_values rows \<longrightarrow> upcast (float_values rows) c = c"
    by (simp add: upcast_def split: cell.splits val.splits)
  ultimately show ?thesis
    by (simp add: reshape_blocks nth_append number_of_upcast notna_upcast)
qed

text \<open>
  The reshaping scenario: the row of 2020 gives four rows with Enrollments 50, 30, 10 and
  10; the third is the Arts row, with retention 85.0 and satisfaction 4.2.
\<close>

theorem reshape_four_per_row_witness:
  "(0::nat) < length [scenario_row] \<and> (2::nat) < 4 \<and> \<not> float_values [scenario_row]
   \<and> (case reshape (WellFormed [scenario_row]) of
         Inl e \<Rightarrow> False
       | Inr out \<Rightarrow>
           length out = 4
           \<and> Department (out ! 2) = V (StrV ''Arts'') \<and> Enrollments (out ! 2) = V (IntV 10)
           \<and> RetentionRate (out ! 2) = V (FloatV 85)
           \<and> SatisfactionScore (out ! 2) = V (FloatV 4.2)
           \<and> map Enrollments out = [V (IntV 50), V (IntV 30), V (IntV 10), V (IntV 10)])"
  using reshape_four_per_row [of "[scenario_row]" "V (IntV 10)"]
  by (simp add: reshape_blocks scenario_row_def float_values_def value_vars_def has_str_def
      is_float_col_def upcast_def)

text \<open>
  Claim C9. For every row \<open>i\<close> of a well-formed wide table, the EnrollmentsDept cells of
  the four long rows made from it are the four department cells of the wide row, in the
  order Engineering, Business, Arts, Science, written in the type of the value column;
  the sum of the numbers in the four long cells is the sum of the numbers in the four
  wide cells. So when the four counts are the integers \<open>a\<close>, \<open>b\<close>, \<open>c\<close> and \<open>d\<close>, the
  sum of EnrollmentsDept over the four long rows is \<open>a + b + c + d\<close>, an integer in an
  integer value column and the same number as a float in a float one.
\<close>

theorem enrollments_round_trip:
  "case reshape (WellFormed rows) of
     Inl e \<Rightarrow> False
   | Inr out \<Rightarrow>
       (\<forall>i<length rows.
          map (\<lambda>k. EnrollmentsDept (out ! (k * length rows + i))) [0, 1, 2, 3] =
            map (upcast (float_values rows))
              [Engineering_Enrolled (rows ! i), Business_Enrolled (rows ! i),
               Arts_Enrolled (rows ! i), Science_Enrolled (rows ! i)]
          \<and> sum_list (numbers (map (\<lambda>k. EnrollmentsDept (out ! (k * length rows + i)))
                [0, 1, 2, 3])) =
              sum_list (numbers [Engineering_Enrolled (rows ! i), Business_Enrolled (rows ! i),
                Arts_Enrolled (rows ! i), Science_Enrolled (rows ! i)])
          \<and> (Engineering_Enrolled (rows ! i) = V (IntV a)
               \<and> Business_Enrolled (rows ! i) = V (IntV b)
               \<and> Arts_Enrolled (rows ! i) = V (IntV c)
               \<and> Science_Enrolled (rows ! i) = V (IntV d)
             \<longrightarrow> sum_min_count_1
                   (map (\<lambda>k. EnrollmentsDept (out ! (k * length rows + i))) [0, 1, 2, 3])
                   = Inr (if float_values rows then SFloat (of_int (a + b + c + d))
                          else SInt (a + b + c + d))))"
proof -
  have cells: "map (\<lambda>k. EnrollmentsDept (out ! (k * length rows + i))) [0, 1, 2, 3] =
            map (upcast (float_values rows))
              [Engineering_Enrolled (rows ! i), Business_Enrolled (rows ! i),
               Arts_Enrolled (rows ! i), Science_Enrolled (rows ! i)]"
    if "reshape (WellFormed rows) = Inr out" and "i < length rows" for out i
    using that by (auto simp: reshape_blocks nth_append)
  have total: "sum_min_count_1 (map (upcast fl) [V (IntV a), V (IntV b), V (IntV c), V (IntV d)])
      = Inr (if fl then SFloat (of_int (a + b + c + d)) else SInt (a + b + c + d))" for fl
    by (simp add: sum_min_count_1_def has_str_def is_float_col_def integers_def numbers_def
        number_of_def upcast_def)
  show ?thesis
  proof (cases "reshape (WellFormed rows)")
    case (Inl e)
    then show ?thesis by (simp add: reshape_blocks)
  next
    case (Inr out)
    have "sum_list (numbers (map (\<lambda>k. EnrollmentsDept (out ! (k * length rows + i)))
                [0, 1, 2, 3])) =
              sum_list (numbers [Engineering_Enrolled (rows ! i), Business_Enrolled (rows ! i),
                Arts_Enrolled (rows ! i), Science_Enrolled (rows ! i)])"
      if "i < length rows" for i
      unfolding cells [OF Inr that] numbers_upcast ..
    moreover have "sum_min_count_1
                   (map (\<lambda>k. EnrollmentsDept (out ! (k * length rows + i))) [0, 1, 2, 3])
                   = Inr (if float_values rows then SFloat (of_int (a + b + c + d))
                          else SInt (a + b + c + d))"
      if "i < length rows" "Engineering_Enrolled (rows ! i) = V (IntV a)"
        "Business_Enrolled (rows ! i) = V (IntV b)" "Arts_Enrolled (rows ! i) = V (IntV c)"
        "Science_Enrolled (rows ! i) = V (IntV d)" for i
      unfolding cells [OF Inr that(1)] that(2-5) by (rule total)
    ultimately show ?thesis
      using Inr cells [OF Inr] by simp
  qed
qed

theorem enrollments_round_trip_witness:
  "(0::nat) < length [scenario_row]
   \<and> Engineering_Enrolled ([scenario_row] ! 0) = V (IntV 50)
   \<and> Business_Enrolled ([scenario_row] ! 0) = V (IntV 30)
   \<and> Arts_Enrolled ([scenario_row] ! 0) = V (IntV 10)
   \<and> Science_Enrolled ([scenario_row] ! 0) = V (IntV 10)
   \<and> \<not> float_values [scenario_row]
   \<and> (case reshape (WellFormed [scenario_row]) of
         Inl e \<Rightarrow> False
       | Inr out \<Rightarrow>
           sum_min_count_1
             (map (\<lambda>k. EnrollmentsDept (out ! (k * length [scenario_row] + 0))) [0, 1, 2, 3])
           = Inr (SInt 100))"
proof -
  have f: "\<not> float_values [scenario_row]"
    by (simp add: scenario_row_def float_values_def value_vars_def has_str_def is_float_col_def)
  show ?thesis
    using f enrollments_round_trip [of "[scenario_row]" 50 30 10 10]
    by (auto simp: scenario_row_def split: sum.splits)
qed

section \<open>Sidebar defaults: properties\<close>

lemma set_dropna: "set (dropna col) = {v. V v \<in> set col}"
  by (induction col) (auto simp: dropna_def map_filter_simps split: cell.splits)

lemma set_unique: "set (unique xs) = set xs"
  by (simp add: unique_def)

lemma distinct_unique: "distinct (unique xs)"
  by (simp add: unique_def)

lemma options_Inr:
  assumes "options col = Inr vs"
  shows "set vs = {v. V v \<in> set col}" and "distinct vs" and "sorted (map val_key vs)"
  using assms
  by (auto simp: options_def py_sorted_def set_dropna set_unique distinct_unique split: if_splits)

lemma options_empty_iff:
  assumes "options (map f df) = Inr vs"
  shows "vs = [] \<longleftrightarrow> \<not> list_ex (\<lambda>r. notna (f r)) df"
proof -
  have s: "set vs = {v. V v \<in> f ` set df}"
    using options_Inr(1) [OF assms] by simp
  have "vs = [] \<longleftrightarrow> set vs = {}" by simp
  also have "\<dots> \<longleftrightarrow> (\<forall>r\<in>set df. \<forall>v. f r \<noteq> V v)"
    unfolding s by (auto simp: image_iff) metis+
  also have "\<dots> \<longleftrightarrow> \<not> list_ex (\<lambda>r. notna (f r)) df"
    by (auto simp: list_ex_iff notna_def split: cell.splits)
  finally show ?thesis .
qed

lemma default_pass:
  assumes "options (map f df) = Inr vs" and "r \<in> set df"
  shows "(vs = [] \<or> isin (f r) vs) \<longleftrightarrow> (notna (f r) \<or> \<not> list_ex (\<lambda>r'. notna (f r')) df)"
proof (cases "f r")
  case (V v)
  have "set vs = {v. V v \<in> f ` set df}"
    using options_Inr(1) [OF assms(1)] by simp
  then have "v \<in> set vs" using V assms(2) by force
  then show ?thesis using V by (simp add: isin_def notna_def)
next
  case NA
  then show ?thesis using options_empty_iff [OF assms(1)] by (simp add: isin_def notna_def)
next
  case NaN
  then show ?thesis using options_empty_iff [OF assms(1)] by (simp add: isin_def notna_def)
qed

text \<open>
  Claim C10. Let the three option lists be computed from the frame (lines 88-90) and let
  the user have picked nothing, so that each selection is its default, the option list.
  An option list is empty exactly when its column has no present value. A row is in the
  filtered output if and only if it is a row of the frame and, in each of the three
  dimensions, its cell is present or the whole column is missing. So a row with a
  missing Year, Department or Term is filtered out although the user restricted
  nothing, unless that column has no present value at all.
\<close>

theorem default_selection_drops_missing:
  assumes "options (map Year df) = Inr years"
    and "options (map Department df) = Inr depts"
    and "options (map Term df) = Inr terms"
  shows "(years = [] \<longleftrightarrow> \<not> list_ex (\<lambda>r'. notna (Year r')) df)
    \<and> (depts = [] \<longleftrightarrow> \<not> list_ex (\<lambda>r'. notna (Department r')) df)
    \<and> (terms = [] \<longleftrightarrow> \<not> list_ex (\<lambda>r'. notna (Term r')) df)
    \<and> (r \<in> set (filter_engine (multiselect years None) (multiselect depts None)
                  (multiselect terms None) df) \<longleftrightarrow>
         r \<in> set df
         \<and> (notna (Year r) \<or> \<not> list_ex (\<lambda>r'. notna (Year r')) df)
         \<and> (notna (Department r) \<or> \<not> list_ex (\<lambda>r'. notna (Department r')) df)
         \<and> (notna (Term r) \<or> \<not> list_ex (\<lambda>r'. notna (Term r')) df))"
proof -
  have "r \<in> set (filter_engine years depts terms df) \<longleftrightarrow>
         r \<in> set df
         \<and> (notna (Year r) \<or> \<not> list_ex (\<lambda>r'. notna (Year r')) df)
         \<and> (notna (Department r) \<or> \<not> list_ex (\<lambda>r'. notna (Department r')) df)
         \<and> (notna (Term r) \<or> \<not> list_ex (\<lambda>r'. notna (Term r')) df)"
    unfolding filter_engine_filter
    using default_pass [OF assms(1), of r] default_pass [OF assms(2), of r]
      default_pass [OF assms(3), of r]
    by auto
  then show ?thesis
    using options_empty_iff [OF assms(1)] options_empty_iff [OF assms(2)]
      options_empty_iff [OF assms(3)]
    by (simp add: multiselect_def)
qed

text \<open>
  In the frame of \<open>row_2021\<close> and \<open>row_no_term\<close> the Term column has a present value,
  so the default selection keeps the first row and drops the second.
\<close>

theorem default_selection_drops_missing_witness:
  "options (map Year [row_2021, row_no_term]) = Inr [IntV 2020, IntV 2021]
   \<and> options (map Department [row_2021, row_no_term]) = Inr [StrV ''Engineering'']
   \<and> options (map Term [row_2021, row_no_term]) = Inr [StrV ''Spring'']
   \<and> row_2021 \<in> set (filter_engine (multiselect [IntV 2020, IntV 2021] None)
         (multiselect [StrV ''Engineering''] None) (multiselect [StrV ''Spring''] None)
         [row_2021, row_no_term])
   \<and> row_no_term \<notin> set (filter_engine (multiselect [IntV 2020, IntV 2021] None)
         (multiselect [StrV ''Engineering''] None) (multiselect [StrV ''Spring''] None)
         [row_2021, row_no_term])"
proof -
  have y: "options (map Year [row_2021, row_no_term]) = Inr [IntV 2020, IntV 2021]"
    by (simp add: row_2021_def row_no_term_def row_2020_def options_def dropna_def
        unique_def py_sorted_def is_str_def val_key_def)
  have d: "options (map Department [row_2021, row_no_term]) = Inr [StrV ''Engineering'']"
    by (simp add: row_2021_def row_no_term_def row_2020_def options_def dropna_def
        unique_def py_sorted_def is_str_def val_key_def)
  have t: "options (map Term [row_2021, row_no_term]) = Inr [StrV ''Spring'']"
    by (simp add: row_2021_def row_no_term_def row_2020_def options_def dropna_def
        unique_def py_sorted_def is_str_def val_key_def)
  show ?thesis
    using y d t
      default_selection_drops_missing [OF y d t, of row_2021]
      default_selection_drops_missing [OF y d t, of row_no_term]
    by (simp add: notna_def row_2021_def row_no_term_def row_2020_def)
qed

section \<open>Loader: properties\<close>

lemma load_paths_None:
  "load_paths fs ps = None \<longleftrightarrow> (\<forall>p\<in>set ps. \<forall>t'. fs p \<noteq> Parsed t')"
  by (induction ps) (auto simp: try_candidate_def split: probe.splits)

lemma first_parsed_Cons:
  assumes np: "\<forall>t'. fs p \<noteq> Parsed t'"
  shows "(\<exists>i<length (p # ps). fs ((p # ps) ! i) = Parsed t
            \<and> (\<forall>j<i. \<forall>t'. fs ((p # ps) ! j) \<noteq> Parsed t'))
        \<longleftrightarrow> (\<exists>i<length ps. fs (ps ! i) = Parsed t \<and> (\<forall>j<i. \<forall>t'. fs (ps ! j) \<noteq> Parsed t'))"
    (is "?L \<longleftrightarrow> ?R")
proof
  assume ?L
  then obtain i where i: "i < length (p # ps)" "fs ((p # ps) ! i) = Parsed t"
      "\<forall>j<i. \<forall>t'. fs ((p # ps) ! j) \<noteq> Parsed t'"
    by blast
  from i(2) np have "i \<noteq> 0" by (cases i) auto
  then obtain k where k: "i = Suc k" by (cases i) auto
  have "\<forall>j<k. \<forall>t'. fs (ps ! j) \<noteq> Parsed t'"
  proof (intro allI impI)
    fix j t' assume "j < k"
    then have "Suc j < i" using k by simp
    with i(3) have "fs ((p # ps) ! Suc j) \<noteq> Parsed t'" by blast
    then show "fs (ps ! j) \<noteq> Parsed t'" by simp
  qed
  with i(1,2) k show ?R by auto
next
  assume ?R
  then obtain i where i: "i < length ps" "fs (ps ! i) = Parsed t"
      "\<forall>j<i. \<forall>t'. fs (ps ! j) \<noteq> Parsed t'"
    by blast
  have "\<forall>j<Suc i. \<forall>t'. fs ((p # ps) ! j) \<noteq> Parsed t'"
  proof (intro allI impI)
    fix j t' assume j: "j < Suc i"
    show "fs ((p # ps) ! j) \<noteq> Parsed t'"
    proof (cases j)
      case 0
      then show ?thesis using np by simp
    next
      case (Suc j')
      then show ?thesis using j i(3) by simp
    qed
  qed
  with i(1,2) show ?L by (intro exI [of _ "Suc i"]) simp
qed

lemma load_paths_Some:
  "load_paths fs ps = Some t \<longleftrightarrow>
     (\<exists>i<length ps. fs (ps ! i) = Parsed t \<and> (\<forall>j<i. \<forall>t'. fs (ps ! j) \<noteq> Parsed t'))"
proof (induction ps)
  case Nil
  then show ?case by simp
next
  case (Cons p ps)
  show ?case
  proof (cases "fs p")
    case (Parsed t0)
    have "(\<exists>i<length (p # ps). fs ((p # ps) ! i) = Parsed t
             \<and> (\<forall>j<i. \<forall>t'. fs ((p # ps) ! j) \<noteq> Parsed t'))
        \<longleftrightarrow> t0 = t"
    proof
      assume "\<exists>i<length (p # ps). fs ((p # ps) ! i) = Parsed t
                \<and> (\<forall>j<i. \<forall>t'. fs ((p # ps) ! j) \<noteq> Parsed t')"
      then obtain i where i: "fs ((p # ps) ! i) = Parsed t"
          "\<forall>j<i. \<forall>t'. fs ((p # ps) ! j) \<noteq> Parsed t'"
        by blast
      have "i = 0"
      proof (rule ccontr)
        assume "i \<noteq> 0"
        then have "0 < i" by simp
        with i(2) have "fs ((p # ps) ! 0) \<noteq> Parsed t0" by blast
        with Parsed show False by simp
      qed
      with i(1) Parsed show "t0 = t" by simp
    next
      assume "t0 = t"
      with Parsed show "\<exists>i<length (p # ps). fs ((p # ps) ! i) = Parsed t
                \<and> (\<forall>j<i. \<forall>t'. fs ((p # ps) ! j) \<noteq> Parsed t')"
        by (intro exI [of _ 0]) simp
    qed
    with Parsed show ?thesis by (simp add: try_candidate_def)
  next
    case Absent
    then have "\<forall>t'. fs p \<noteq> Parsed t'" by simp
    from first_parsed_Cons [of fs p ps t, OF this] Absent Cons.IH show ?thesis
      by (simp add: try_candidate_def)
  next
    case (Raises err)
    then have "\<forall>t'. fs p \<noteq> Parsed t'" by simp
    from first_parsed_Cons [of fs p ps t, OF this] Raises Cons.IH show ?thesis
      by (simp add: try_candidate_def)
  qed
qed

lemma load_body_sample:
  "load_data_body sample_files = Some (WellFormed [fall_row, spring_row])"
  by (simp add: load_data_body_def DATA_PATHS_def sample_files_def try_candidate_def)

lemma load_sample:
  "fst (load_data None 0 sample_files) = Some (WellFormed [fall_row, spring_row])"
  by (simp add: load_data_def load_body_sample)

lemma load_data_miss:
  assumes "c = None \<or> (\<exists>df stored_at. c = Some (df, stored_at) \<and> stored_at + 600 \<le> now)"
  shows "load_data c now fs = (load_paths fs DATA_PATHS, Some (load_paths fs DATA_PATHS, now))"
  using assms by (auto simp: load_data_def load_data_body_def ttl_def)

lemma load_data_hit:
  assumes "c = Some (df, stored_at)" and "now < stored_at + 600"
  shows "load_data c now fs = (df, c)"
  using assms by (simp add: load_data_def ttl_def)

text \<open>
  Claim C4, as stated, fails, because the loader is cached for 600 seconds. A run at time
  0 that finds no file leaves \<^verbatim>\<open>None\<close> in the cache. At time 100 the second candidate
  holds a CSV that parses, yet the loader returns \<^verbatim>\<open>None\<close> and the script stops at the
  load error. The other way round, with a table in the cache and no file left, the
  loader returns the table and not the sentinel.
\<close>

theorem loader_stale_cache:
  "cache_after (sample_env\<lparr>files := (\<lambda>p. Absent)\<rparr>) = Some (None, 0)
   \<and> cache stale_env = Some (None, 0) \<and> clock stale_env = 100
   \<and> files stale_env (DATA_PATHS ! 1) = Parsed (WellFormed [fall_row, spring_row])
   \<and> fst (load_data (cache stale_env) (clock stale_env) (files stale_env)) = None
   \<and> run stale_env = ([PageTitle, Intro, LoadError], Stopped)
   \<and> fst (load_data (Some (Some (WellFormed [fall_row, spring_row]), 0)) 100 (\<lambda>p. Absent))
       = Some (WellFormed [fall_row, spring_row])"
  by (simp add: cache_after_def stale_env_def sample_env_def load_data_def load_data_body_def
      ttl_def DATA_PATHS_def sample_files_def try_candidate_def run_def)

text \<open>
  Claim C4, amended. For every list of candidate paths the body of the loader returns the
  table of the first candidate that parses: it returns \<open>t\<close> exactly when some candidate
  parses to \<open>t\<close> and no earlier candidate parses. A candidate that is missing, or whose
  reading raises, is passed over, whatever its place in the list (the last one
  included): the exception is caught and the loop goes on with the rest. The body returns
  \<^verbatim>\<open>None\<close> exactly when no candidate parses. The loader runs its body on the two
  candidate paths of the script when the cache is empty or its entry is 600 seconds old
  or older, and stores the result with the time of the call; when the entry is younger
  it returns the stored result and leaves the cache as it is. Whenever the loader
  returns \<^verbatim>\<open>None\<close>, the script shows the title, the introduction and the load error and
  stops: nothing is reshaped and no warning, indicator or chart appears.
\<close>

theorem loader_cached_first_parsed:
  "(load_paths fs ps = Some t \<longleftrightarrow>
      (\<exists>i<length ps. fs (ps ! i) = Parsed t \<and> (\<forall>j<i. \<forall>t'. fs (ps ! j) \<noteq> Parsed t')))
   \<and> (load_paths fs ps = None \<longleftrightarrow> (\<forall>q\<in>set ps. \<forall>t'. fs q \<noteq> Parsed t'))
   \<and> (try_candidate fs p = Inl err \<longrightarrow> load_paths fs (p # ps) = load_paths fs ps)
   \<and> (try_candidate fs p = Inr None \<longrightarrow> load_paths fs (p # ps) = load_paths fs ps)
   \<and> (c = None \<or> (\<exists>df stored_at. c = Some (df, stored_at) \<and> stored_at + 600 \<le> now) \<longrightarrow>
        (fst (load_data c now fs) = Some t \<longleftrightarrow>
           (\<exists>i<length DATA_PATHS. fs (DATA_PATHS ! i) = Parsed t
              \<and> (\<forall>j<i. \<forall>t'. fs (DATA_PATHS ! j) \<noteq> Parsed t')))
        \<and> (fst (load_data c now fs) = None \<longleftrightarrow> (\<forall>q\<in>set DATA_PATHS. \<forall>t'. fs q \<noteq> Parsed t'))
        \<and> snd (load_data c now fs) = Some (fst (load_data c now fs), now))
   \<and> (c = Some (df0, at0) \<and> now < at0 + 600 \<longrightarrow> load_data c now fs = (df0, c))
   \<and> (fst (load_data (cache e) (clock e) (files e)) = None
        \<longrightarrow> run e = ([PageTitle, Intro, LoadError], Stopped))"
proof -
  have miss: "(fst (load_data c now fs) = Some t \<longleftrightarrow>
           (\<exists>i<length DATA_PATHS. fs (DATA_PATHS ! i) = Parsed t
              \<and> (\<forall>j<i. \<forall>t'. fs (DATA_PATHS ! j) \<noteq> Parsed t')))
        \<and> (fst (load_data c now fs) = None \<longleftrightarrow> (\<forall>q\<in>set DATA_PATHS. \<forall>t'. fs q \<noteq> Parsed t'))
        \<and> snd (load_data c now fs) = Some (fst (load_data c now fs), now)"
    if "c = None \<or> (\<exists>df stored_at. c = Some (df, stored_at) \<and> stored_at + 600 \<le> now)"
    unfolding load_data_miss [OF that]
    using load_paths_Some [of fs DATA_PATHS t] load_paths_None [of fs DATA_PATHS]
    by simp
  have hit: "load_data c now fs = (df0, c)" if "c = Some (df0, at0) \<and> now < at0 + 600"
    using that load_data_hit by blast
  show ?thesis
    using load_paths_Some [of fs ps t] load_paths_None [of fs ps] miss hit
    by (simp add: run_def)
qed

text \<open>
  With the sample files and an empty cache the first candidate raises and is passed
  over, and the table of the second is returned and stored at time 0. At time 599 the
  stored table is returned although every file is gone; at time 600 the body runs again
  and returns \<^verbatim>\<open>None\<close>, and the script stops at the load error.
\<close>

theorem loader_cached_first_parsed_witness:
  "try_candidate sample_files ''university_student_data.csv'' = Inl OtherError
   \<and> (1::nat) < length DATA_PATHS
   \<and> sample_files (DATA_PATHS ! 1) = Parsed (WellFormed [fall_row, spring_row])
   \<and> load_paths sample_files [''university_student_data.csv''] = None
   \<and> load_data None 0 sample_files =
       (Some (WellFormed [fall_row, spring_row]),
        Some (Some (WellFormed [fall_row, spring_row]), 0))
   \<and> load_data (Some (Some (WellFormed [fall_row, spring_row]), 0)) 599 (\<lambda>p. Absent) =
       (Some (WellFormed [fall_row, spring_row]),
        Some (Some (WellFormed [fall_row, spring_row]), 0))
   \<and> load_data (Some (Some (WellFormed [fall_row, spring_row]), 0)) 600 (\<lambda>p. Absent) =
       (None, Some (None, 600))
   \<and> fst (load_data (cache (sample_env\<lparr>files := (\<lambda>p. Absent)\<rparr>))
         (clock (sample_env\<lparr>files := (\<lambda>p. Absent)\<rparr>))
         (files (sample_env\<lparr>files := (\<lambda>p. Absent)\<rparr>))) = None
   \<and> run (sample_env\<lparr>files := (\<lambda>p. Absent)\<rparr>) = ([PageTitle, Intro, LoadError], Stopped)"
proof -
  let ?T = "WellFormed [fall_row, spring_row]"
  let ?e = "sample_env\<lparr>files := (\<lambda>p. Absent)\<rparr>"
  have a: "try_candidate sample_files ''university_student_data.csv'' = Inl OtherError"
    by (simp add: try_candidate_def sample_files_def)
  have b: "sample_files (DATA_PATHS ! 1) = Parsed ?T" "(1::nat) < length DATA_PATHS"
    "\<forall>j<1. \<forall>t'. sample_files (DATA_PATHS ! j) \<noteq> Parsed t'"
    by (simp_all add: DATA_PATHS_def sample_files_def)
  have first: "\<exists>i<length DATA_PATHS. sample_files (DATA_PATHS ! i) = Parsed ?T
      \<and> (\<forall>j<i. \<forall>t'. sample_files (DATA_PATHS ! j) \<noteq> Parsed t')"
    using b by blast
  have none: "\<forall>q\<in>set DATA_PATHS. \<forall>t'. (\<lambda>p. Absent) q \<noteq> Parsed (t' :: table)"
    by simp
  have c1: "cache ?e = None" "clock ?e = 0" "files ?e = (\<lambda>p. Absent)"
    by (simp_all add: sample_env_def)
  note m1 = loader_cached_first_parsed [of sample_files "[]" ?T
      "''university_student_data.csv''" OtherError None 0 None 0 ?e]
  note m2 = loader_cached_first_parsed [of "\<lambda>p. Absent" "[]" ?T
      "''university_student_data.csv''" OtherError "Some (Some ?T, 0)" 599 "Some ?T" 0 ?e]
  note m3 = loader_cached_first_parsed [of "\<lambda>p. Absent" "[]" ?T
      "''university_student_data.csv''" OtherError "Some (Some ?T, 0)" 600 "Some ?T" 0 ?e]
  note m4 = loader_cached_first_parsed [of "\<lambda>p. Absent" "[]" ?T
      "''university_student_data.csv''" OtherError None 0 None 0 ?e]
  have l1: "load_data None 0 sample_files = (Some ?T, Some (Some ?T, 0))"
    using m1 first by (simp add: prod_eq_iff)
  have l2: "load_data (Some (Some ?T, 0)) 599 (\<lambda>p. Absent) = (Some ?T, Some (Some ?T, 0))"
    using m2 by simp
  have l3: "load_data (Some (Some ?T, 0)) 600 (\<lambda>p. Absent) = (None, Some (None, 600))"
    using m3 none by (simp add: prod_eq_iff)
  have l4: "fst (load_data (cache ?e) (clock ?e) (files ?e)) = None"
    unfolding c1 using m4 none by simp
  have l5: "run ?e = ([PageTitle, Intro, LoadError], Stopped)"
    using m4 l4 by simp
  have l6: "load_paths sample_files [''university_student_data.csv''] = None"
    using m1 a by simp
  show ?thesis
    using a b(1,2) l1 l2 l3 l4 l5 l6 by simp
qed

section \<open>Empty filter result: properties\<close>

lemmas eval_defs = coerce_def Let_def coerce_int_def coerce_float_def to_numeric_def
  to_numeric_cell_def the_int_def the_float_def astype_Int64_def integral_def
  cells_of_numcol_def cells_of_Int64_def options_def dropna_def unique_def py_sorted_def
  is_str_def val_key_def multiselect_def filter_engine_def isin_def

lemma sample_reshaped_coerced:
  "\<exists>df0. reshape (WellFormed [fall_row, spring_row]) = Inr df0
     \<and> coerce (\<lambda>s. PFail) df0 = sample_frame"
  by (simp add: reshape_blocks fall_row_def scenario_row_def spring_row_def sample_frame_def
      float_values_def value_vars_def has_str_def is_float_col_def upcast_def eval_defs)

text \<open>
  Claim C3. Whenever the script reaches the filter (a table was loaded and reshaped and
  the three option lists were built) and the filtered frame has no row, the run is: the
  title, the introduction, the preview with its shape line, the sidebar header and the
  "no rows" warning, and then it stops. No indicator, chart, error box or filtered table
  follows, and no exception escapes.
\<close>

theorem empty_filter_stops:
  assumes "fst (load_data (cache e) (clock e) (files e)) = Some t"
    and "reshape t = Inr df0"
    and "options (map Year (coerce (literal e) df0)) = Inr years"
    and "options (map Department (coerce (literal e) df0)) = Inr depts"
    and "options (map Term (coerce (literal e) df0)) = Inr terms"
    and "filter_engine (multiselect years (year_pick e)) (multiselect depts (dept_pick e))
           (multiselect terms (term_pick e)) (coerce (literal e) df0) = []"
  shows "run e =
     ([PageTitle, Intro, Subheader QuickView, Dataframe (take 5 (coerce (literal e) df0)),
       ShapeLine (length (coerce (literal e) df0)) 10, SidebarHeader, NoRowsWarning], Stopped)"
  using assms
  by (simp add: run_def filtered_run_def Let_def missing_def long_columns_def
      expected_columns_def)

text \<open>
  The sample files with the year 2020 and the term Spring picked: both are offered, no
  row has both, and the run stops at the warning.
\<close>

theorem empty_filter_stops_witness:
  "fst (load_data (cache picky_env) (clock picky_env) (files picky_env)) = Some (WellFormed [fall_row, spring_row])
   \<and> options (map Year sample_frame) = Inr [IntV 2020, IntV 2021]
   \<and> options (map Term sample_frame) = Inr [StrV ''Fall'', StrV ''Spring'']
   \<and> filter_engine (multiselect [IntV 2020, IntV 2021] (year_pick picky_env))
        (multiselect [StrV ''Arts'', StrV ''Business'', StrV ''Engineering'', StrV ''Science'']
           (dept_pick picky_env))
        (multiselect [StrV ''Fall'', StrV ''Spring''] (term_pick picky_env)) sample_frame = []
   \<and> run picky_env =
       ([PageTitle, Intro, Subheader QuickView, Dataframe (take 5 sample_frame),
         ShapeLine 8 10, SidebarHeader, NoRowsWarning], Stopped)"
proof -
  obtain df0 where r: "reshape (WellFormed [fall_row, spring_row]) = Inr df0"
    and c: "coerce (\<lambda>s. PFail) df0 = sample_frame"
    using sample_reshaped_coerced by blast
  have l: "fst (load_data (cache picky_env) (clock picky_env) (files picky_env)) = Some (WellFormed [fall_row, spring_row])"
    using load_sample by (simp add: picky_env_def sample_env_def)
  have lit: "literal picky_env = (\<lambda>s. PFail)"
    by (simp add: picky_env_def sample_env_def)
  have y: "options (map Year (coerce (literal picky_env) df0)) = Inr [IntV 2020, IntV 2021]"
    unfolding lit c by (simp add: sample_frame_def eval_defs)
  have d: "options (map Department (coerce (literal picky_env) df0)) =
      Inr [StrV ''Arts'', StrV ''Business'', StrV ''Engineering'', StrV ''Science'']"
    unfolding lit c by (simp add: sample_frame_def eval_defs)
  have t: "options (map Term (coerce (literal picky_env) df0)) = Inr [StrV ''Fall'', StrV ''Spring'']"
    unfolding lit c by (simp add: sample_frame_def eval_defs)
  have f: "filter_engine (multiselect [IntV 2020, IntV 2021] (year_pick picky_env))
        (multiselect [StrV ''Arts'', StrV ''Business'', StrV ''Engineering'', StrV ''Science'']
           (dept_pick picky_env))
        (multiselect [StrV ''Fall'', StrV ''Spring''] (term_pick picky_env))
        (coerce (literal picky_env) df0) = []"
    unfolding lit c by (simp add: sample_frame_def picky_env_def sample_env_def eval_defs)
  show ?thesis
    using empty_filter_stops [OF l r y d t f] l y t f
    unfolding lit c
    by (simp add: sample_frame_def)
qed

section \<open>Validator and coercer: properties\<close>

lemma map_filter_all:
  "list_all (\<lambda>p. f p \<noteq> None) ps \<Longrightarrow> List.map_filter f ps = map (\<lambda>p. the (f p)) ps"
  by (induction ps) auto

lemma length_to_numeric_cells: "length (cells_of_numcol (to_numeric parse col)) = length col"
  by (auto simp: to_numeric_def cells_of_numcol_def Let_def map_filter_all)

lemma to_numeric_nth:
  assumes "i < length col"
  shows "number_of (cells_of_numcol (to_numeric parse col) ! i) = the_float (to_numeric_cell parse (col ! i))"
    and "notna (cells_of_numcol (to_numeric parse col) ! i) \<longleftrightarrow> to_numeric_cell parse (col ! i) \<noteq> PFail"
proof -
  show "number_of (cells_of_numcol (to_numeric parse col) ! i) = the_float (to_numeric_cell parse (col ! i))"
  proof (cases "list_all (\<lambda>p. the_int p \<noteq> None) (map (to_numeric_cell parse) col)")
    case True
    then have "the_int (to_numeric_cell parse (col ! i)) \<noteq> None"
      using assms by (simp add: list_all_length)
    then show ?thesis using True assms
      by (auto simp: to_numeric_def cells_of_numcol_def map_filter_all number_of_def the_int_def the_float_def
          split: parsed.splits)
  next
    case False
    then show ?thesis using assms
      by (auto simp: to_numeric_def cells_of_numcol_def number_of_def the_float_def split: parsed.splits option.splits)
  qed
  show "notna (cells_of_numcol (to_numeric parse col) ! i) \<longleftrightarrow> to_numeric_cell parse (col ! i) \<noteq> PFail"
  proof (cases "list_all (\<lambda>p. the_int p \<noteq> None) (map (to_numeric_cell parse) col)")
    case True
    then have "the_int (to_numeric_cell parse (col ! i)) \<noteq> None"
      using assms by (simp add: list_all_length)
    then show ?thesis using True assms
      by (auto simp: to_numeric_def cells_of_numcol_def map_filter_all notna_def the_int_def
          split: parsed.splits)
  next
    case False
    then show ?thesis using assms
      by (auto simp: to_numeric_def cells_of_numcol_def notna_def the_float_def split: parsed.splits option.splits)
  qed
qed

lemma astype_cells:
  fixes c :: numcol
  defines "a \<equiv> (case astype_Int64 c of Inr xs \<Rightarrow> cells_of_Int64 xs | Inl e \<Rightarrow> cells_of_numcol c)"
  shows "length a = length (cells_of_numcol c)"
    and "i < length (cells_of_numcol c) \<Longrightarrow> number_of (a ! i) = number_of (cells_of_numcol c ! i)"
    and "i < length (cells_of_numcol c) \<Longrightarrow> notna (a ! i) = notna (cells_of_numcol c ! i)"
proof -
  show "length a = length (cells_of_numcol c)"
    by (cases c) (auto simp: a_def astype_Int64_def cells_of_Int64_def cells_of_numcol_def)
  show "number_of (a ! i) = number_of (cells_of_numcol c ! i)" if "i < length (cells_of_numcol c)"
  proof (cases c)
    case (Int64_col xs)
    then show ?thesis using that
      by (simp add: a_def astype_Int64_def cells_of_Int64_def cells_of_numcol_def)
  next
    case (Float64_col xs)
    show ?thesis
    proof (cases "list_all (\<lambda>x. case x of None \<Rightarrow> True | Some v \<Rightarrow> integral v) xs")
      case True
      then have "case xs ! i of None \<Rightarrow> True | Some v \<Rightarrow> integral v"
        using that Float64_col by (simp add: list_all_length cells_of_numcol_def)
      then show ?thesis using True that Float64_col
        by (auto simp: a_def astype_Int64_def cells_of_Int64_def cells_of_numcol_def number_of_def
            integral_def split: option.splits)
    next
      case False
      then show ?thesis using Float64_col by (simp add: a_def astype_Int64_def)
    qed
  qed
  show "notna (a ! i) = notna (cells_of_numcol c ! i)" if "i < length (cells_of_numcol c)"
  proof (cases c)
    case (Int64_col xs)
    then show ?thesis using that
      by (simp add: a_def astype_Int64_def cells_of_Int64_def cells_of_numcol_def)
  next
    case (Float64_col xs)
    then show ?thesis using that
      by (auto simp: a_def astype_Int64_def cells_of_Int64_def cells_of_numcol_def notna_def
          split: option.splits)
  qed
qed

lemma length_coerce_int: "length (coerce_int parse col) = length col"
  using astype_cells(1) [of "to_numeric parse col"]
  by (simp add: coerce_int_def length_to_numeric_cells)

lemma length_coerce_float: "length (coerce_float parse col) = length col"
  by (simp add: coerce_float_def length_to_numeric_cells)

lemma coerce_int_nth:
  assumes "i < length col"
  shows "number_of (coerce_int parse col ! i) = the_float (to_numeric_cell parse (col ! i))"
    and "notna (coerce_int parse col ! i) \<longleftrightarrow> to_numeric_cell parse (col ! i) \<noteq> PFail"
  using assms astype_cells(2,3) [of i "to_numeric parse col"] to_numeric_nth [OF assms, of parse]
  by (simp_all add: coerce_int_def length_to_numeric_cells)

lemma coerce_float_nth:
  assumes "i < length col"
  shows "number_of (coerce_float parse col ! i) = the_float (to_numeric_cell parse (col ! i))"
    and "notna (coerce_float parse col ! i) \<longleftrightarrow> to_numeric_cell parse (col ! i) \<noteq> PFail"
  using to_numeric_nth [OF assms, of parse]
  by (simp_all add: coerce_float_def)

lemma map_map2_other:
  assumes "length vs = length rs" and "\<And>v r. g (u v r) = g r"
  shows "map g (map2 u vs rs) = map g rs"
  using assms by (intro nth_equalityI) simp_all

lemma length_coerce: "length (coerce parse df) = length df"
  by (simp add: coerce_def Let_def length_coerce_int length_coerce_float)

lemma coerce_nth:
  assumes "i < length df"
  shows "coerce parse df ! i =
     (df ! i)\<lparr>Year := coerce_int parse (map Year df) ! i,
              Applications := coerce_int parse (map Applications df) ! i,
              Enrollments := coerce_int parse (map Enrollments df) ! i,
              RetentionRate := coerce_float parse (map RetentionRate df) ! i,
              SatisfactionScore := coerce_float parse (map SatisfactionScore df) ! i\<rparr>"
proof -
  define df1 where "df1 = map2 (\<lambda>v r. r\<lparr>Year := v\<rparr>) (coerce_int parse (map Year df)) df"
  define df2 where
    "df2 = map2 (\<lambda>v r. r\<lparr>Applications := v\<rparr>) (coerce_int parse (map Applications df1)) df1"
  define df3 where
    "df3 = map2 (\<lambda>v r. r\<lparr>Enrollments := v\<rparr>) (coerce_int parse (map Enrollments df2)) df2"
  define df4 where
    "df4 = map2 (\<lambda>v r. r\<lparr>RetentionRate := v\<rparr>) (coerce_float parse (map RetentionRate df3)) df3"
  define df5 where
    "df5 = map2 (\<lambda>v r. r\<lparr>SatisfactionScore := v\<rparr>)
             (coerce_float parse (map SatisfactionScore df4)) df4"
  have c: "coerce parse df = df5"
    by (simp only: coerce_def Let_def df1_def df2_def df3_def df4_def df5_def)
  have l1: "length df1 = length df" by (simp add: df1_def length_coerce_int)
  have l2: "length df2 = length df" by (simp add: df2_def length_coerce_int l1)
  have l3: "length df3 = length df" by (simp add: df3_def length_coerce_int l2)
  have l4: "length df4 = length df" by (simp add: df4_def length_coerce_float l3)
  have l5: "length df5 = length df" by (simp add: df5_def length_coerce_float l4)
  have a1: "map Applications df1 = map Applications df"
    unfolding df1_def by (rule map_map2_other) (simp_all add: length_coerce_int)
  have e1: "map Enrollments df1 = map Enrollments df"
    unfolding df1_def by (rule map_map2_other) (simp_all add: length_coerce_int)
  have r1: "map RetentionRate df1 = map RetentionRate df"
    unfolding df1_def by (rule map_map2_other) (simp_all add: length_coerce_int)
  have s1: "map SatisfactionScore df1 = map SatisfactionScore df"
    unfolding df1_def by (rule map_map2_other) (simp_all add: length_coerce_int)
  have e2: "map Enrollments df2 = map Enrollments df"
    unfolding df2_def e1 [symmetric] by (rule map_map2_other) (simp_all add: length_coerce_int)
  have r2: "map RetentionRate df2 = map RetentionRate df"
    unfolding df2_def r1 [symmetric] by (rule map_map2_other) (simp_all add: length_coerce_int)
  have s2: "map SatisfactionScore df2 = map SatisfactionScore df"
    unfolding df2_def s1 [symmetric] by (rule map_map2_other) (simp_all add: length_coerce_int)
  have r3: "map RetentionRate df3 = map RetentionRate df"
    unfolding df3_def r2 [symmetric] by (rule map_map2_other) (simp_all add: length_coerce_int)
  have s3: "map SatisfactionScore df3 = map SatisfactionScore df"
    unfolding df3_def s2 [symmetric] by (rule map_map2_other) (simp_all add: length_coerce_int)
  have s4: "map SatisfactionScore df4 = map SatisfactionScore df"
    unfolding df4_def s3 [symmetric] by (rule map_map2_other) (simp_all add: length_coerce_float)
  have n1: "df1 ! i = (df ! i)\<lparr>Year := coerce_int parse (map Year df) ! i\<rparr>"
    using assms by (simp add: df1_def length_coerce_int)
  have n2: "df2 ! i = (df1 ! i)\<lparr>Applications := coerce_int parse (map Applications df) ! i\<rparr>"
    using assms l1 by (simp add: df2_def length_coerce_int a1)
  have n3: "df3 ! i = (df2 ! i)\<lparr>Enrollments := coerce_int parse (map Enrollments df) ! i\<rparr>"
    using assms l2 by (simp add: df3_def length_coerce_int e2)
  have n4: "df4 ! i = (df3 ! i)\<lparr>RetentionRate := coerce_float parse (map RetentionRate df) ! i\<rparr>"
    using assms l3 by (simp add: df4_def length_coerce_float r3)
  have n5: "df5 ! i =
      (df4 ! i)\<lparr>SatisfactionScore := coerce_float parse (map SatisfactionScore df) ! i\<rparr>"
    using assms l4 by (simp add: df5_def length_coerce_float s4)
  show "coerce parse df ! i =
     (df ! i)\<lparr>Year := coerce_int parse (map Year df) ! i,
              Applications := coerce_int parse (map Applications df) ! i,
              Enrollments := coerce_int parse (map Enrollments df) ! i,
              RetentionRate := coerce_float parse (map RetentionRate df) ! i,
              SatisfactionScore := coerce_float parse (map SatisfactionScore df) ! i\<rparr>"
    by (simp add: c n5 n4 n3 n2 n1)
qed

text \<open>
  Claim C7. Coercion keeps every row, in its place: the frame has as many rows after it as
  before. In every row the columns that are not coerced (Term, Department, Admitted,
  Enrolled, EnrollmentsDept) are unchanged. Each cell of Year, Applications, Enrollments,
  RetentionRate and SatisfactionScore is decided by the cell it comes from alone: it is
  missing after coercion if and only if that cell does not parse as a number, and
  otherwise it holds the number parsed. An integer column is the \<^verbatim>\<open>Int64\<close> column of
  the cast when the cast returns. The cast is the one operation of the stage that raises,
  and it is caught: the column is then the float column of \<^verbatim>\<open>to_numeric\<close>, with the
  same numbers. The stage itself returns a frame for every frame.
\<close>

theorem coerce_cellwise:
  "length (coerce parse df) = length df
   \<and> (\<forall>i<length df.
        Term (coerce parse df ! i) = Term (df ! i)
        \<and> Department (coerce parse df ! i) = Department (df ! i)
        \<and> Admitted (coerce parse df ! i) = Admitted (df ! i)
        \<and> Enrolled (coerce parse df ! i) = Enrolled (df ! i)
        \<and> EnrollmentsDept (coerce parse df ! i) = EnrollmentsDept (df ! i)
        \<and> (notna (Year (coerce parse df ! i)) \<longleftrightarrow> to_numeric_cell parse (Year (df ! i)) \<noteq> PFail)
        \<and> number_of (Year (coerce parse df ! i)) = the_float (to_numeric_cell parse (Year (df ! i)))
        \<and> (notna (Applications (coerce parse df ! i))
             \<longleftrightarrow> to_numeric_cell parse (Applications (df ! i)) \<noteq> PFail)
        \<and> number_of (Applications (coerce parse df ! i))
             = the_float (to_numeric_cell parse (Applications (df ! i)))
        \<and> (notna (Enrollments (coerce parse df ! i))
             \<longleftrightarrow> to_numeric_cell parse (Enrollments (df ! i)) \<noteq> PFail)
        \<and> number_of (Enrollments (coerce parse df ! i))
             = the_float (to_numeric_cell parse (Enrollments (df ! i)))
        \<and> (notna (RetentionRate (coerce parse df ! i))
             \<longleftrightarrow> to_numeric_cell parse (RetentionRate (df ! i)) \<noteq> PFail)
        \<and> number_of (RetentionRate (coerce parse df ! i))
             = the_float (to_numeric_cell parse (RetentionRate (df ! i)))
        \<and> (notna (SatisfactionScore (coerce parse df ! i))
             \<longleftrightarrow> to_numeric_cell parse (SatisfactionScore (df ! i)) \<noteq> PFail)
        \<and> number_of (SatisfactionScore (coerce parse df ! i))
             = the_float (to_numeric_cell parse (SatisfactionScore (df ! i))))
   \<and> (astype_Int64 (to_numeric parse col) = Inr xs
        \<longrightarrow> coerce_int parse col = cells_of_Int64 xs)
   \<and> (astype_Int64 (to_numeric parse col) = Inl err
        \<longrightarrow> coerce_int parse col = cells_of_numcol (to_numeric parse col))"
proof (intro conjI allI impI)
  fix i assume i: "i < length df"
  note n = coerce_nth [OF i, of parse]
  show "Term (coerce parse df ! i) = Term (df ! i)" by (simp add: n)
  show "Department (coerce parse df ! i) = Department (df ! i)" by (simp add: n)
  show "Admitted (coerce parse df ! i) = Admitted (df ! i)" by (simp add: n)
  show "Enrolled (coerce parse df ! i) = Enrolled (df ! i)" by (simp add: n)
  show "EnrollmentsDept (coerce parse df ! i) = EnrollmentsDept (df ! i)" by (simp add: n)
  show "notna (Year (coerce parse df ! i)) \<longleftrightarrow> to_numeric_cell parse (Year (df ! i)) \<noteq> PFail"
    using coerce_int_nth(2) [of i "map Year df" parse] i by (simp add: n)
  show "number_of (Year (coerce parse df ! i)) = the_float (to_numeric_cell parse (Year (df ! i)))"
    using coerce_int_nth(1) [of i "map Year df" parse] i by (simp add: n)
  show "notna (Applications (coerce parse df ! i))
      \<longleftrightarrow> to_numeric_cell parse (Applications (df ! i)) \<noteq> PFail"
    using coerce_int_nth(2) [of i "map Applications df" parse] i by (simp add: n)
  show "number_of (Applications (coerce parse df ! i))
      = the_float (to_numeric_cell parse (Applications (df ! i)))"
    using coerce_int_nth(1) [of i "map Applications df" parse] i by (simp add: n)
  show "notna (Enrollments (coerce parse df ! i))
      \<longleftrightarrow> to_numeric_cell parse (Enrollments (df ! i)) \<noteq> PFail"
    using coerce_int_nth(2) [of i "map Enrollments df" parse] i by (simp add: n)
  show "number_of (Enrollments (coerce parse df ! i))
      = the_float (to_numeric_cell parse (Enrollments (df ! i)))"
    using coerce_int_nth(1) [of i "map Enrollments df" parse] i by (simp add: n)
  show "notna (RetentionRate (coerce parse df ! i))
      \<longleftrightarrow> to_numeric_cell parse (RetentionRate (df ! i)) \<noteq> PFail"
    using coerce_float_nth(2) [of i "map RetentionRate df" parse] i by (simp add: n)
  show "number_of (RetentionRate (coerce parse df ! i))
      = the_float (to_numeric_cell parse (RetentionRate (df ! i)))"
    using coerce_float_nth(1) [of i "map RetentionRate df" parse] i by (simp add: n)
  show "notna (SatisfactionScore (coerce parse df ! i))
      \<longleftrightarrow> to_numeric_cell parse (SatisfactionScore (df ! i)) \<noteq> PFail"
    using coerce_float_nth(2) [of i "map SatisfactionScore df" parse] i by (simp add: n)
  show "number_of (SatisfactionScore (coerce parse df ! i))
      = the_float (to_numeric_cell parse (SatisfactionScore (df ! i)))"
    using coerce_float_nth(1) [of i "map SatisfactionScore df" parse] i by (simp add: n)
qed (simp_all add: length_coerce coerce_int_def)

text \<open>
  The coercion scenario: the string in Applications becomes a missing cell, the rest of
  its row and the other row are as before. A Year column with 2020.5 cannot be cast to
  \<^verbatim>\<open>Int64\<close> and stays a float column, its string a \<^verbatim>\<open>NaN\<close>.
\<close>

theorem coerce_cellwise_witness:
  "(0::nat) < length [row_bad_applications, row_2021]
   \<and> to_numeric_cell (\<lambda>s. PFail) (Applications ([row_bad_applications, row_2021] ! 0)) = PFail
   \<and> coerce (\<lambda>s. PFail) [row_bad_applications, row_2021]
       = [row_2020\<lparr>Applications := NA\<rparr>, row_2021]
   \<and> astype_Int64 (to_numeric (\<lambda>s. PFail) [V (FloatV 2020.5), V (StrV ''n/a'')]) = Inl TypeError
   \<and> coerce_int (\<lambda>s. PFail) [V (FloatV 2020.5), V (StrV ''n/a'')] = [V (FloatV 2020.5), NaN]"
  using coerce_cellwise [of "\<lambda>s. PFail" "[row_bad_applications, row_2021]"
      "[V (FloatV 2020.5), V (StrV ''n/a'')]" "[]" TypeError]
  by (simp add: row_bad_applications_def row_2020_def row_2021_def eval_defs)

section \<open>Aggregator: properties\<close>

lemma has_str_iff: "has_str col \<longleftrightarrow> (\<exists>c\<in>set col. notna c \<and> number_of c = None)"
  by (auto simp: has_str_def list_ex_iff notna_def number_of_def split: cell.splits val.splits)

lemma the_float_None: "the_float p = None \<longleftrightarrow> p = PFail"
  by (cases p) (simp_all add: the_float_def)

lemma coerced_numeric:
  assumes "r \<in> set (coerce parse df)"
  shows "\<not> (notna (RetentionRate r) \<and> number_of (RetentionRate r) = None)"
    and "\<not> (notna (SatisfactionScore r) \<and> number_of (SatisfactionScore r) = None)"
    and "\<not> (notna (Enrollments r) \<and> number_of (Enrollments r) = None)"
    and "\<not> (notna (Year r) \<and> number_of (Year r) = None)"
proof -
  obtain i where i: "i < length df" "r = coerce parse df ! i"
    using assms by (auto simp: in_set_conv_nth length_coerce)
  note n = coerce_nth [OF i(1), of parse]
  show "\<not> (notna (RetentionRate r) \<and> number_of (RetentionRate r) = None)"
    using coerce_float_nth [of i "map RetentionRate df" parse] i
    by (simp add: n the_float_None)
  show "\<not> (notna (SatisfactionScore r) \<and> number_of (SatisfactionScore r) = None)"
    using coerce_float_nth [of i "map SatisfactionScore df" parse] i
    by (simp add: n the_float_None)
  show "\<not> (notna (Enrollments r) \<and> number_of (Enrollments r) = None)"
    using coerce_int_nth [of i "map Enrollments df" parse] i
    by (simp add: n the_float_None)
  show "\<not> (notna (Year r) \<and> number_of (Year r) = None)"
    using coerce_int_nth [of i "map Year df" parse] i
    by (simp add: n the_float_None)
qed

lemma set_filter_engine: "set (filter_engine ys ds ts df) \<subseteq> set df"
  by (auto simp: filter_engine_filter)

lemma filtered_no_str:
  assumes "set df_f \<subseteq> set (coerce parse df)"
  shows "\<not> has_str (map RetentionRate df_f)" and "\<not> has_str (map SatisfactionScore df_f)"
    and "\<not> has_str (map Enrollments df_f)"
  using assms coerced_numeric [of _ parse df]
  by (auto simp: has_str_iff)

lemma groupby_mean_series:
  assumes "\<not> has_str (map col df)"
  shows "\<exists>s. groupby_mean key col df = Inr s
     \<and> map fst s = group_keys (map key df)
     \<and> sorted (map (val_key \<circ> fst) s)
     \<and> distinct (map fst s)
     \<and> set (map fst s) = {k. \<exists>r\<in>set df. key r = V k}
     \<and> (\<forall>(k, m)\<in>set s. m = mean_skipna (map col (filter (\<lambda>r. key r = V k) df)))"
proof -
  define s where "s = map (\<lambda>k. (k, mean_skipna (map col (filter (\<lambda>r. key r = V k) df))))
                  (group_keys (map key df))"
  have g: "groupby_mean key col df = Inr s"
    using assms by (simp add: groupby_mean_def s_def)
  have f: "map fst s = group_keys (map key df)"
    by (simp add: s_def o_def)
  have 1: "sorted (map (val_key \<circ> fst) s)"
    using f by (metis group_keys_def list.map_comp sorted_sort_key)
  have 2: "distinct (map fst s)"
    by (simp add: f group_keys_def distinct_unique)
  have 3: "set (map fst s) = {k. \<exists>r\<in>set df. key r = V k}"
    unfolding f by (auto simp: group_keys_def set_unique set_dropna image_iff) metis
  have 4: "\<forall>(k, m)\<in>set s. m = mean_skipna (map col (filter (\<lambda>r. key r = V k) df))"
    by (auto simp: s_def)
  show ?thesis using g f 1 2 3 4 by blast
qed

lemma coerce_int_uniform:
  "list_all (\<lambda>c. case c of V (IntV i) \<Rightarrow> True | NA \<Rightarrow> True | _ \<Rightarrow> False) (coerce_int parse col)
   \<or> list_all (\<lambda>c. case c of V (FloatV x) \<Rightarrow> True | NaN \<Rightarrow> True | _ \<Rightarrow> False) (coerce_int parse col)"
  by (auto simp: coerce_int_def astype_Int64_def cells_of_Int64_def cells_of_numcol_def
      list_all_iff split: sum.splits numcol.splits option.splits if_splits)

lemma map_Year_coerce: "map Year (coerce parse df) = coerce_int parse (map Year df)"
  by (rule nth_equalityI) (simp_all add: length_coerce length_coerce_int coerce_nth)

lemma coerced_years_less:
  assumes "r1 \<in> set (coerce parse df)" "r2 \<in> set (coerce parse df)"
    and "Year r1 = V a" "Year r2 = V b" "a \<noteq> b" "val_key a \<le> val_key b"
  shows "case (a, b) of (IntV i, IntV j) \<Rightarrow> i < j | (FloatV x, FloatV y) \<Rightarrow> x < y | _ \<Rightarrow> False"
proof -
  have m: "V a \<in> set (coerce_int parse (map Year df))" "V b \<in> set (coerce_int parse (map Year df))"
    using assms(1-4) unfolding map_Year_coerce [symmetric] by force+
  from coerce_int_uniform [of parse "map Year df"] m assms(5,6) show ?thesis
    by (auto simp: list_all_iff val_key_def less_eq_prod_def split: val.splits)
qed

lemma numbers_concat:
  "numbers col =
     concat (map (\<lambda>c. case c of V (IntV i) \<Rightarrow> [of_int i] | V (FloatV x) \<Rightarrow> [x] | _ \<Rightarrow> []) col)"
  by (induction col) (auto simp: numbers_def number_of_def split: cell.splits val.splits)

lemma mean_skipna_explicit:
  "mean_skipna (map f rows) =
     (let xs = concat (map (\<lambda>r. case f r of V (IntV i) \<Rightarrow> [of_int i] | V (FloatV x) \<Rightarrow> [x]
                                  | _ \<Rightarrow> []) rows)
      in if xs = [] then None else Some (sum_list xs / of_nat (length xs)))"
  by (simp add: mean_skipna_def numbers_concat Let_def o_def)

lemma ascending_years:
  assumes sub: "set df_f \<subseteq> set (coerce parse df0)"
    and keys: "set ks = {k. \<exists>r\<in>set df_f. Year r = V k}"
    and srt: "sorted (map val_key ks)" and dst: "distinct ks"
  shows "sorted_wrt (\<lambda>a b. case (a, b) of (IntV i, IntV j) \<Rightarrow> i < j
                            | (FloatV x, FloatV y) \<Rightarrow> x < y | _ \<Rightarrow> False) ks"
proof (unfold sorted_wrt_iff_nth_less, intro allI impI)
  fix i j assume ij: "i < j" "j < length ks"
  then have "ks ! i \<in> set ks" "ks ! j \<in> set ks" by simp_all
  then obtain r1 r2 where r: "r1 \<in> set df_f" "Year r1 = V (ks ! i)"
      "r2 \<in> set df_f" "Year r2 = V (ks ! j)"
    unfolding keys by blast
  have ne: "ks ! i \<noteq> ks ! j"
    using ij dst by (simp add: nth_eq_iff_index_eq)
  have "map val_key ks ! i \<le> map val_key ks ! j"
    using srt ij by (intro sorted_nth_mono) simp_all
  then have le: "val_key (ks ! i) \<le> val_key (ks ! j)"
    using ij by simp
  show "case (ks ! i, ks ! j) of (IntV i, IntV j) \<Rightarrow> i < j
          | (FloatV x, FloatV y) \<Rightarrow> x < y | _ \<Rightarrow> False"
    using coerced_years_less [of r1 parse df0 r2 "ks ! i" "ks ! j"] r sub ne le by blast
qed

text \<open>
  Claim C8. For every filtered part of a coerced frame both yearly aggregations return a
  series. The years of the retention series are the present years of the filtered rows,
  each once and in strictly ascending order (as integers, or as floats when the Year
  column fell back to floats). The value at a year is the mean of the present
  RetentionRate cells of the rows of that year: their sum divided by their number, and
  \<^verbatim>\<open>NaN\<close> (here \<open>None\<close>) when none is present. The satisfaction series has the same
  years and the means of SatisfactionScore. The two rows of 2020 with retention 80 and of
  2021 with retention 90 give the series \<open>[(2020, 80.0), (2021, 90.0)]\<close>.
\<close>

theorem yearly_series:
  "let df_f = filter_engine year_sel dept_sel term_sel (coerce parse df0)
   in \<exists>ret sat.
     groupby_mean Year RetentionRate df_f = Inr ret
     \<and> groupby_mean Year SatisfactionScore df_f = Inr sat
     \<and> set (map fst ret) = {y. \<exists>r\<in>set df_f. Year r = V y}
     \<and> distinct (map fst ret)
     \<and> sorted (map (val_key \<circ> fst) ret)
     \<and> sorted_wrt (\<lambda>p q. case (fst p, fst q) of (IntV i, IntV j) \<Rightarrow> i < j
                            | (FloatV x, FloatV y) \<Rightarrow> x < y | _ \<Rightarrow> False) ret
     \<and> (\<forall>(y, m)\<in>set ret.
           m = (let xs = concat (map (\<lambda>r. case RetentionRate r of V (IntV i) \<Rightarrow> [of_int i]
                                           | V (FloatV x) \<Rightarrow> [x] | _ \<Rightarrow> [])
                                 (filter (\<lambda>r. Year r = V y) df_f))
                in if xs = [] then None else Some (sum_list xs / of_nat (length xs))))
     \<and> map fst sat = map fst ret
     \<and> (\<forall>(y, m)\<in>set sat.
           m = (let xs = concat (map (\<lambda>r. case SatisfactionScore r of V (IntV i) \<Rightarrow> [of_int i]
                                           | V (FloatV x) \<Rightarrow> [x] | _ \<Rightarrow> [])
                                 (filter (\<lambda>r. Year r = V y) df_f))
                in if xs = [] then None else Some (sum_list xs / of_nat (length xs))))
     \<and> groupby_mean Year RetentionRate [row_2020, row_2021]
         = Inr [(IntV 2020, Some 80), (IntV 2021, Some 90)]"
proof -
  define df_f where "df_f = filter_engine year_sel dept_sel term_sel (coerce parse df0)"
  have sub: "set df_f \<subseteq> set (coerce parse df0)"
    unfolding df_f_def by (rule set_filter_engine)
  obtain ret where ret: "groupby_mean Year RetentionRate df_f = Inr ret"
    "map fst ret = group_keys (map Year df_f)"
    "sorted (map (val_key \<circ> fst) ret)" "distinct (map fst ret)"
    "set (map fst ret) = {k. \<exists>r\<in>set df_f. Year r = V k}"
    "\<forall>(k, m)\<in>set ret. m = mean_skipna (map RetentionRate (filter (\<lambda>r. Year r = V k) df_f))"
    using groupby_mean_series [OF filtered_no_str(1) [OF sub], of Year] by blast
  obtain sat where sat: "groupby_mean Year SatisfactionScore df_f = Inr sat"
    "map fst sat = group_keys (map Year df_f)"
    "\<forall>(k, m)\<in>set sat. m = mean_skipna (map SatisfactionScore (filter (\<lambda>r. Year r = V k) df_f))"
    using groupby_mean_series [OF filtered_no_str(2) [OF sub], of Year] by blast
  have "sorted (map val_key (map fst ret))"
    using ret(3) by (simp add: o_def)
  from ascending_years [OF sub ret(5) this ret(4)]
  have asc: "sorted_wrt (\<lambda>p q. case (fst p, fst q) of (IntV i, IntV j) \<Rightarrow> i < j
                            | (FloatV x, FloatV y) \<Rightarrow> x < y | _ \<Rightarrow> False) ret"
    by (simp add: sorted_wrt_map)
  have sc: "groupby_mean Year RetentionRate [row_2020, row_2021]
         = Inr [(IntV 2020, Some 80), (IntV 2021, Some 90)]"
    by (simp add: groupby_mean_def has_str_def group_keys_def dropna_def unique_def val_key_def
        mean_skipna_def numbers_def number_of_def row_2020_def row_2021_def)
  show ?thesis
    unfolding df_f_def [symmetric] Let_def
    using ret(1,3,4,5) sat(1) asc sc ret(6) sat(3) ret(2) sat(2)
    by (intro exI [of _ ret] exI [of _ sat]) (simp add: mean_skipna_explicit Let_def)
qed

text \<open>
  Four rows given out of order, three of them of 2020 with retention 80, 90 and a missing
  cell: the series come out by ascending year, and the value of 2020 is the mean 85 of the
  two present cells (4.3 for satisfaction).
\<close>

theorem yearly_series_witness:
  "groupby_mean Year RetentionRate
       (filter_engine [] [] [] (coerce (\<lambda>s. PFail) [row_2021, row_2020_c, row_2020, row_2020_b]))
     = Inr [(IntV 2020, Some 85), (IntV 2021, Some 90)]
   \<and> groupby_mean Year SatisfactionScore
       (filter_engine [] [] [] (coerce (\<lambda>s. PFail) [row_2021, row_2020_c, row_2020, row_2020_b]))
     = Inr [(IntV 2020, Some 4.3), (IntV 2021, Some 4.5)]"
proof -
  let ?F = "filter_engine [] [] [] (coerce (\<lambda>s. PFail) [row_2021, row_2020_c, row_2020, row_2020_b])"
  have c: "?F = [row_2021, row_2020_c, row_2020, row_2020_b]"
    by (simp add: row_2020_def row_2021_def row_2020_b_def row_2020_c_def eval_defs)
  have a: "groupby_mean Year RetentionRate [row_2021, row_2020_c, row_2020, row_2020_b]
      = Inr [(IntV 2020, Some 85), (IntV 2021, Some 90)]"
    by (simp add: groupby_mean_def has_str_def group_keys_def mean_skipna_def numbers_def
        number_of_def dropna_def unique_def val_key_def row_2020_def row_2021_def
        row_2020_b_def row_2020_c_def)
  have b: "groupby_mean Year SatisfactionScore [row_2021, row_2020_c, row_2020, row_2020_b]
      = Inr [(IntV 2020, Some 4.3), (IntV 2021, Some 4.5)]"
    by (simp add: groupby_mean_def has_str_def group_keys_def mean_skipna_def numbers_def
        number_of_def dropna_def unique_def val_key_def row_2020_def row_2021_def
        row_2020_b_def row_2020_c_def)
  obtain ret sat where "groupby_mean Year RetentionRate ?F = Inr ret"
    and "groupby_mean Year SatisfactionScore ?F = Inr sat"
    using yearly_series [of "[]" "[]" "[]" "\<lambda>s. PFail"
        "[row_2021, row_2020_c, row_2020, row_2020_b]"]
    unfolding Let_def by blast
  then have "ret = [(IntV 2020, Some 85), (IntV 2021, Some 90)]"
    and "sat = [(IntV 2020, Some 4.3), (IntV 2021, Some 4.5)]"
    unfolding c a b by simp_all
  with \<open>groupby_mean Year RetentionRate ?F = Inr ret\<close>
    \<open>groupby_mean Year SatisfactionScore ?F = Inr sat\<close>
  show ?thesis by simp
qed

section \<open>Indicators and guarded sections: properties\<close>

lemmas agg_defs = kpi_section_def kpi_body_def mean_def mean_skipna_def has_str_def numbers_def
  number_of_def integers_def is_float_col_def total_enr_def sum_min_count_1_def or_0_def
  py_int_def groupby_mean_def groupby_sum_def group_keys_def chart_section_def sections_def

text \<open>
  Claim C5. The claim gives the enrollment total of a filtered frame whose Enrollments
  cells are all missing as zero. The script does not: with the sample files and the picks
  2021 and Arts the filtered frame is the one row \<open>arts_2021\<close>,
  \<^verbatim>\<open>sum(min_count=1)\<close> is \<^verbatim>\<open>pd.NA\<close>, \<^verbatim>\<open>pd.NA or 0\<close> raises \<^verbatim>\<open>TypeError\<close>, and
  the run shows the error box of the indicators and none of the three metrics. In a
  float column the sum is \<^verbatim>\<open>NaN\<close>, which is true, and \<^verbatim>\<open>int(NaN)\<close> raises
  \<^verbatim>\<open>ValueError\<close>. The exception is caught; the run completes.
\<close>

theorem kpi_total_all_missing:
  "total_enr [arts_2021] = Inl TypeError
   \<and> total_enr [arts_2021\<lparr>Enrollments := NaN\<rparr>] = Inl ValueError
   \<and> run arts_env =
       ([PageTitle, Intro, Subheader QuickView, Dataframe (take 5 sample_frame), ShapeLine 8 10,
         SidebarHeader, Subheader Indicators, ErrorBox Indicators TypeError,
         Subheader RetentionTrend, Pyplot (LineChart [(IntV 2021, Some 90)]),
         Subheader SatisfactionByYear, Pyplot (BarChart [(IntV 2021, Some 4.5)]),
         Subheader EnrollmentByTerm, Pyplot (PieChart [(StrV ''Spring'', IntV 0)]),
         Subheader FilteredData, Dataframe [arts_2021]], Completed)"
proof -
  obtain df0 where r: "reshape (WellFormed [fall_row, spring_row]) = Inr df0"
    and c: "coerce (\<lambda>s. PFail) df0 = sample_frame"
    using sample_reshaped_coerced by blast
  have l: "fst (load_data (cache arts_env) (clock arts_env) (files arts_env)) = Some (WellFormed [fall_row, spring_row])"
    using load_sample by (simp add: arts_env_def sample_env_def)
  have lit: "literal arts_env = (\<lambda>s. PFail)"
    by (simp add: arts_env_def sample_env_def)
  have fr: "filtered_run arts_env sample_frame =
       ([SidebarHeader, Subheader Indicators, ErrorBox Indicators TypeError,
         Subheader RetentionTrend, Pyplot (LineChart [(IntV 2021, Some 90)]),
         Subheader SatisfactionByYear, Pyplot (BarChart [(IntV 2021, Some 4.5)]),
         Subheader EnrollmentByTerm, Pyplot (PieChart [(StrV ''Spring'', IntV 0)]),
         Subheader FilteredData, Dataframe [arts_2021]], Completed)"
    by (simp add: filtered_run_def sample_frame_def arts_env_def sample_env_def arts_2021_def
        eval_defs agg_defs)
  have "run arts_env =
       ([PageTitle, Intro, Subheader QuickView, Dataframe (take 5 sample_frame), ShapeLine 8 10,
         SidebarHeader, Subheader Indicators, ErrorBox Indicators TypeError,
         Subheader RetentionTrend, Pyplot (LineChart [(IntV 2021, Some 90)]),
         Subheader SatisfactionByYear, Pyplot (BarChart [(IntV 2021, Some 4.5)]),
         Subheader EnrollmentByTerm, Pyplot (PieChart [(StrV ''Spring'', IntV 0)]),
         Subheader FilteredData, Dataframe [arts_2021]], Completed)"
    using l r c fr
    by (simp add: run_def lit missing_def long_columns_def expected_columns_def sample_frame_def)
  moreover have "total_enr [arts_2021] = Inl TypeError"
    by (simp add: arts_2021_def agg_defs)
  moreover have "total_enr [arts_2021\<lparr>Enrollments := NaN\<rparr>] = Inl ValueError"
    by (simp add: arts_2021_def agg_defs)
  ultimately show ?thesis by simp
qed

text \<open>
  Claim C6, as stated, fails: on the frame \<open>arts_2021\<close> the means of retention and of
  satisfaction are computed (90 and 4.5), the enrollment total raises, and the one error
  box stands for the whole block: neither of the two other indicators is shown.
\<close>

theorem kpi_error_hides_other_kpis:
  "mean (map RetentionRate [arts_2021]) = Inr (Some 90)
   \<and> mean (map SatisfactionScore [arts_2021]) = Inr (Some 4.5)
   \<and> total_enr [arts_2021] = Inl TypeError
   \<and> kpi_section [arts_2021] = [ErrorBox Indicators TypeError]
   \<and> Metric RetentionKPI (Percent 90) \<notin> set (kpi_section [arts_2021])
   \<and> Metric SatisfactionKPI (OutOfFive 4.5) \<notin> set (kpi_section [arts_2021])"
  by (simp add: arts_2021_def agg_defs)

lemma groupby_sum_Inr:
  "\<not> has_str (map col df) \<Longrightarrow> \<exists>tot. groupby_sum key col df = Inr tot"
  by (simp add: groupby_sum_def)

lemma kpi_section_cases:
  "(\<exists>err. kpi_body df_f = Inl err \<and> kpi_section df_f = [ErrorBox Indicators err])
   \<or> (\<exists>a b c. kpi_section df_f =
         [Metric RetentionKPI a, Metric SatisfactionKPI b, Metric EnrollmentKPI c])"
  by (auto simp: kpi_section_def kpi_body_def split: sum.splits)

text \<open>
  Claim C6, amended. When the script reaches the sections with a filtered frame that has
  rows, the run completes and shows, in this order: the indicator block, the three
  charts and the filtered table. The indicator block is guarded as a whole: it is either
  one error box, for the exception its body raised, or the three metrics. Each chart is
  guarded on its own: its aggregation returns, and its place holds the chart when the
  drawing succeeds and an error box of that chart, with the exception of its own
  drawing, when it does not. The filtered table follows whatever happened before.
\<close>

theorem guarded_sections:
  assumes "fst (load_data (cache e) (clock e) (files e)) = Some t"
    and "reshape t = Inr df0"
    and "options (map Year (coerce (literal e) df0)) = Inr years"
    and "options (map Department (coerce (literal e) df0)) = Inr depts"
    and "options (map Term (coerce (literal e) df0)) = Inr terms"
    and "df_f = filter_engine (multiselect years (year_pick e)) (multiselect depts (dept_pick e))
           (multiselect terms (term_pick e)) (coerce (literal e) df0)"
    and "df_f \<noteq> []"
  shows "\<exists>ret sat tot.
     groupby_mean Year RetentionRate df_f = Inr ret
     \<and> groupby_mean Year SatisfactionScore df_f = Inr sat
     \<and> groupby_sum Term Enrollments df_f = Inr tot
     \<and> run e =
        ([PageTitle, Intro, Subheader QuickView, Dataframe (take 5 (coerce (literal e) df0)),
          ShapeLine (length (coerce (literal e) df0)) 10, SidebarHeader, Subheader Indicators]
         @ kpi_section df_f
         @ [Subheader RetentionTrend,
            (case pyplot e (LineChart ret) of
               None \<Rightarrow> Pyplot (LineChart ret) | Some err \<Rightarrow> ErrorBox RetentionTrend err),
            Subheader SatisfactionByYear,
            (case pyplot e (BarChart sat) of
               None \<Rightarrow> Pyplot (BarChart sat) | Some err \<Rightarrow> ErrorBox SatisfactionByYear err),
            Subheader EnrollmentByTerm,
            (case pyplot e (PieChart tot) of
               None \<Rightarrow> Pyplot (PieChart tot) | Some err \<Rightarrow> ErrorBox EnrollmentByTerm err),
            Subheader FilteredData, Dataframe df_f], Completed)
     \<and> ((\<exists>err. kpi_body df_f = Inl err \<and> kpi_section df_f = [ErrorBox Indicators err])
        \<or> (\<exists>a b c. kpi_section df_f =
              [Metric RetentionKPI a, Metric SatisfactionKPI b, Metric EnrollmentKPI c]))"
proof -
  have sub: "set df_f \<subseteq> set (coerce (literal e) df0)"
    unfolding assms(6) by (rule set_filter_engine)
  obtain ret where ret: "groupby_mean Year RetentionRate df_f = Inr ret"
    using groupby_mean_series [OF filtered_no_str(1) [OF sub], of Year] by blast
  obtain sat where sat: "groupby_mean Year SatisfactionScore df_f = Inr sat"
    using groupby_mean_series [OF filtered_no_str(2) [OF sub], of Year] by blast
  obtain tot where tot: "groupby_sum Term Enrollments df_f = Inr tot"
    using groupby_sum_Inr [OF filtered_no_str(3) [OF sub], of Term] by blast
  have s: "sections (pyplot e) df_f =
        [Subheader Indicators] @ kpi_section df_f
         @ [Subheader RetentionTrend,
            (case pyplot e (LineChart ret) of
               None \<Rightarrow> Pyplot (LineChart ret) | Some err \<Rightarrow> ErrorBox RetentionTrend err),
            Subheader SatisfactionByYear,
            (case pyplot e (BarChart sat) of
               None \<Rightarrow> Pyplot (BarChart sat) | Some err \<Rightarrow> ErrorBox SatisfactionByYear err),
            Subheader EnrollmentByTerm,
            (case pyplot e (PieChart tot) of
               None \<Rightarrow> Pyplot (PieChart tot) | Some err \<Rightarrow> ErrorBox EnrollmentByTerm err),
            Subheader FilteredData, Dataframe df_f]"
    by (simp add: sections_def chart_section_def ret sat tot split: option.splits)
  have r: "run e =
        ([PageTitle, Intro, Subheader QuickView, Dataframe (take 5 (coerce (literal e) df0)),
          ShapeLine (length (coerce (literal e) df0)) 10, SidebarHeader]
         @ sections (pyplot e) df_f, Completed)"
    using assms(1-5,7) assms(6) [symmetric]
    by (simp add: run_def filtered_run_def Let_def missing_def long_columns_def
        expected_columns_def)
  show ?thesis
    using ret sat tot kpi_section_cases [of df_f]
    by (intro exI [of _ ret] exI [of _ sat] exI [of _ tot]) (simp add: r s)
qed

text \<open>
  With a plotting library that fails on line charts, the retention chart is replaced by
  its error box; the indicators, the two other charts and the table are shown.
\<close>

theorem guarded_sections_witness:
  "fst (load_data (cache no_line_env) (clock no_line_env) (files no_line_env)) = Some (WellFormed [fall_row, spring_row])
   \<and> sample_frame \<noteq> []
   \<and> run no_line_env =
       ([PageTitle, Intro, Subheader QuickView, Dataframe (take 5 sample_frame), ShapeLine 8 10,
         SidebarHeader, Subheader Indicators,
         Metric RetentionKPI (Percent 87.5), Metric SatisfactionKPI (OutOfFive 4.35),
         Metric EnrollmentKPI (Count 220),
         Subheader RetentionTrend, ErrorBox RetentionTrend OtherError,
         Subheader SatisfactionByYear,
         Pyplot (BarChart [(IntV 2020, Some 4.2), (IntV 2021, Some 4.5)]),
         Subheader EnrollmentByTerm,
         Pyplot (PieChart [(StrV ''Fall'', IntV 100), (StrV ''Spring'', IntV 120)]),
         Subheader FilteredData, Dataframe sample_frame], Completed)"
proof -
  obtain df0 where r: "reshape (WellFormed [fall_row, spring_row]) = Inr df0"
    and c: "coerce (\<lambda>s. PFail) df0 = sample_frame"
    using sample_reshaped_coerced by blast
  have l: "fst (load_data (cache no_line_env) (clock no_line_env) (files no_line_env)) = Some (WellFormed [fall_row, spring_row])"
    using load_sample by (simp add: no_line_env_def sample_env_def)
  have lit: "literal no_line_env = (\<lambda>s. PFail)"
    by (simp add: no_line_env_def sample_env_def)
  have y: "options (map Year (coerce (literal no_line_env) df0)) = Inr [IntV 2020, IntV 2021]"
    unfolding lit c by (simp add: sample_frame_def eval_defs)
  have d: "options (map Department (coerce (literal no_line_env) df0)) =
      Inr [StrV ''Arts'', StrV ''Business'', StrV ''Engineering'', StrV ''Science'']"
    unfolding lit c by (simp add: sample_frame_def eval_defs)
  have t: "options (map Term (coerce (literal no_line_env) df0)) = Inr [StrV ''Fall'', StrV ''Spring'']"
    unfolding lit c by (simp add: sample_frame_def eval_defs)
  have f: "sample_frame = filter_engine (multiselect [IntV 2020, IntV 2021] (year_pick no_line_env))
        (multiselect [StrV ''Arts'', StrV ''Business'', StrV ''Engineering'', StrV ''Science'']
           (dept_pick no_line_env))
        (multiselect [StrV ''Fall'', StrV ''Spring''] (term_pick no_line_env))
        (coerce (literal no_line_env) df0)"
    unfolding lit c by (simp add: sample_frame_def no_line_env_def sample_env_def eval_defs)
  have n: "sample_frame \<noteq> []"
    by (simp add: sample_frame_def)
  have k: "kpi_section sample_frame =
      [Metric RetentionKPI (Percent 87.5), Metric SatisfactionKPI (OutOfFive 4.35),
       Metric EnrollmentKPI (Count 220)]"
    by (simp add: sample_frame_def agg_defs)
  have g1: "groupby_mean Year RetentionRate sample_frame = Inr [(IntV 2020, Some 85), (IntV 2021, Some 90)]"
    by (simp add: sample_frame_def agg_defs eval_defs)
  have g2: "groupby_mean Year SatisfactionScore sample_frame
      = Inr [(IntV 2020, Some 4.2), (IntV 2021, Some 4.5)]"
    by (simp add: sample_frame_def agg_defs eval_defs)
  have g3: "groupby_sum Term Enrollments sample_frame
      = Inr [(StrV ''Fall'', IntV 100), (StrV ''Spring'', IntV 120)]"
    by (simp add: sample_frame_def agg_defs eval_defs)
  have p: "pyplot no_line_env = (\<lambda>c. case c of LineChart s \<Rightarrow> Some OtherError | _ \<Rightarrow> None)"
    by (simp add: no_line_env_def sample_env_def)
  show ?thesis
    using guarded_sections [OF l r y d t f n] l n
    unfolding lit c g1 g2 g3 k p
    by (auto simp: sample_frame_def)
qed

end
